theory Spec2Isabelle
  imports Main "HOL-Library.Word"
begin

section \<open>The WebAuthn ceremony client of insect_app_front\<close>

text \<open>
  A shallow embedding of \<^verbatim>\<open>src/utils/webauthn-api.ts\<close> (the codec, the four
  begin/finish calls) and of the ceremony functions that the same file carries after them
  (\<^verbatim>\<open>isWebAuthnSupported\<close>, \<^verbatim>\<open>registerWebAuthnCredential\<close>,
  \<^verbatim>\<open>authenticateWebAuthn\<close>, \<^verbatim>\<open>saveLastEmail\<close>).

  Conventions.
  \<^item> An \<^verbatim>\<open>ArrayBuffer\<close> is the list of its bytes, \<open>u8 list\<close>.
  \<^item> A JavaScript string is a \<open>string\<close>: a list of 8-bit characters, one per code unit
    in the range 0..255. Base64 text and the binary strings handed to \<^verbatim>\<open>btoa\<close>
    are of that kind. The Japanese message literals of the source are only compared and
    passed on, never measured; they are written as the bytes of their UTF-8 form.
  \<^item> A value of type \<^verbatim>\<open>any\<close> is a \<open>jsval\<close>.
  \<^item> An exception is a value: a function that can throw returns \<open>thrown + 'a\<close>,
    with \<open>Inl\<close> for the thrown value.
  \<^item> The host (server, platform credential API, storage, console, timers) is a record of
    outcomes, \<open>world\<close>; a function with effects returns the events it caused, in order,
    and the storage it leaves.
\<close>

subsection \<open>Thrown values\<close>

type_synonym u8 = "8 word"

text \<open>
  \<open>TypeError\<close> is raised by the language itself: reading a property of
  \<^verbatim>\<open>undefined\<close> or \<^verbatim>\<open>null\<close>, or calling something that is not a function.
  Its message is the engine's; the site is kept instead.
\<close>

datatype type_error = ReadOfNullish string | NotAFunction string

text \<open>
  \<^item> \<open>Error m\<close>: \<^verbatim>\<open>new Error(m)\<close>, thrown by this program.
  \<^item> \<open>TypeError site\<close>: thrown by the language.
  \<^item> \<open>InvalidCharacterError\<close>: the \<^verbatim>\<open>DOMException\<close> of \<^verbatim>\<open>atob\<close>.
  \<^item> \<open>HostError is_error m\<close>: a value the host threw or rejected a promise with
    (\<^verbatim>\<open>fetch\<close>, \<^verbatim>\<open>Response.json\<close>, \<^verbatim>\<open>navigator.credentials\<close>,
    \<^verbatim>\<open>localStorage\<close>); \<open>is_error\<close> says whether it is an instance of
    \<^verbatim>\<open>Error\<close>, \<open>m\<close> is its \<^verbatim>\<open>message\<close>. An aborted request
    (\<^verbatim>\<open>AbortError\<close>) is one of these.
\<close>

datatype thrown =
    Error string
  | TypeError type_error
  | InvalidCharacterError
  | HostError bool string

definition bindE :: "thrown + 'a \<Rightarrow> ('a \<Rightarrow> thrown + 'b) \<Rightarrow> thrown + 'b" where
  "bindE m f = (case m of Inl e \<Rightarrow> Inl e | Inr x \<Rightarrow> f x)"

fun mapE :: "('a \<Rightarrow> thrown + 'b) \<Rightarrow> 'a list \<Rightarrow> thrown + 'b list" where
  "mapE f [] = Inr []"
| "mapE f (x # xs) = bindE (f x) (\<lambda>y. bindE (mapE f xs) (\<lambda>ys. Inr (y # ys)))"

subsection \<open>The platform's Base64 functions\<close>

text \<open>
  \<^verbatim>\<open>btoa\<close> and \<^verbatim>\<open>atob\<close> belong to the platform, not to the repository. They are
  modelled after the WHATWG standards (HTML: \<^verbatim>\<open>btoa\<close>, \<^verbatim>\<open>atob\<close>; Infra:
  forgiving-base64 encode and decode), over the alphabet of RFC 4648, table 1.
\<close>

definition base64_table :: string where
  "base64_table = ''ABCDEFGHIJKLMNOPQRSTUVWXYZabcdefghijklmnopqrstuvwxyz0123456789+/''"

fun index_of :: "'a list \<Rightarrow> 'a \<Rightarrow> nat" where
  "index_of [] c = 0"
| "index_of (x # xs) c = (if x = c then 0 else Suc (index_of xs c))"

definition enc6 :: "nat \<Rightarrow> char" where
  "enc6 n = base64_table ! n"

definition dec6 :: "char \<Rightarrow> nat" where
  "dec6 c = index_of base64_table c"

text \<open>
  \<^verbatim>\<open>btoa\<close>: three bytes give four characters; a last group of one or two bytes is
  completed with zero bits and padded with \<^verbatim>\<open>=\<close>. The standard's
  \<^verbatim>\<open>InvalidCharacterError\<close> for a code unit above 255 cannot arise: the type has none.
\<close>

fun btoa :: "string \<Rightarrow> string" where
  "btoa (a # b # c # rest) =
     (let x = of_char a :: nat; y = of_char b :: nat; z = of_char c :: nat in
        enc6 (x div 4) # enc6 ((x mod 4) * 16 + y div 16) #
        enc6 ((y mod 16) * 4 + z div 64) # enc6 (z mod 64) # btoa rest)"
| "btoa [a, b] =
     (let x = of_char a :: nat; y = of_char b :: nat in
        [enc6 (x div 4), enc6 ((x mod 4) * 16 + y div 16), enc6 ((y mod 16) * 4), CHR ''=''])"
| "btoa [a] =
     (let x = of_char a :: nat in
        [enc6 (x div 4), enc6 ((x mod 4) * 16), CHR ''='', CHR ''=''])"
| "btoa [] = []"

text \<open>ASCII whitespace: TAB, LF, FF, CR and SPACE.\<close>

definition ascii_whitespace :: "char \<Rightarrow> bool" where
  "ascii_whitespace c =
     (c = CHR 0x09 \<or> c = CHR 0x0A \<or> c = CHR 0x0C \<or> c = CHR 0x0D \<or> c = CHR 0x20)"

text \<open>
  Forgiving-base64 decode, step 2: when the length is a multiple of 4, one or two
  \<^verbatim>\<open>=\<close> at the end are removed.
\<close>

definition strip_padding :: "string \<Rightarrow> string" where
  "strip_padding d =
     (if length d mod 4 = 0 then
        (if 2 \<le> length d \<and> last d = CHR ''='' \<and> last (butlast d) = CHR ''=''
           then butlast (butlast d)
         else if d \<noteq> [] \<and> last d = CHR ''='' then butlast d
         else d)
      else d)"

text \<open>
  Steps 5 to 9: four 6-bit numbers give three bytes; of a last group of two (three)
  numbers the low four (two) bits are discarded. A single left-over number cannot occur,
  step 3 has refused such a length.
\<close>

fun decode_sextets :: "nat list \<Rightarrow> string" where
  "decode_sextets (p # q # r # s # rest) =
     char_of (p * 4 + q div 16) # char_of ((q mod 16) * 16 + r div 4) #
     char_of ((r mod 4) * 64 + s) # decode_sextets rest"
| "decode_sextets [p, q, r] = [char_of (p * 4 + q div 16), char_of ((q mod 16) * 16 + r div 4)]"
| "decode_sextets [p, q] = [char_of (p * 4 + q div 16)]"
| "decode_sextets [p] = []"
| "decode_sextets [] = []"

definition atob :: "string \<Rightarrow> thrown + string" where
  "atob d =
     (let d1 = filter (\<lambda>c. \<not> ascii_whitespace c) d;
          d2 = strip_padding d1
      in if length d2 mod 4 = 1 then Inl InvalidCharacterError
         else if list_ex (\<lambda>c. c \<notin> set base64_table) d2 then Inl InvalidCharacterError
         else Inr (decode_sextets (map dec6 d2)))"

subsection \<open>The codec\<close>

text \<open>\<^verbatim>\<open>String.fromCharCode(bytes[i])\<close> and \<^verbatim>\<open>bytes[i] = binary.charCodeAt(i)\<close>.\<close>

definition fromCharCode :: "u8 \<Rightarrow> char" where
  "fromCharCode b = char_of (unat b)"

definition charCodeAt_u8 :: "char \<Rightarrow> u8" where
  "charCodeAt_u8 c = word_of_nat (of_char c)"

text \<open>\<^verbatim>\<open>s.replace(/c/g, r)\<close> for a pattern of one character, and \<^verbatim>\<open>s.padEnd(n, c)\<close>.\<close>

definition replace_all :: "char \<Rightarrow> string \<Rightarrow> string \<Rightarrow> string" where
  "replace_all c r s = concat (map (\<lambda>x. if x = c then r else [x]) s)"

definition padEnd :: "string \<Rightarrow> nat \<Rightarrow> char \<Rightarrow> string" where
  "padEnd s n c = s @ replicate (n - length s) c"

definition bufferToBase64URL :: "u8 list \<Rightarrow> string" where
  "bufferToBase64URL buffer =
     (let binary = map fromCharCode buffer
      in replace_all (CHR ''='') ''''
           (replace_all (CHR ''/'') ''_'' (replace_all (CHR ''+'') ''-'' (btoa binary))))"

definition base64URLToBuffer :: "string \<Rightarrow> thrown + u8 list" where
  "base64URLToBuffer base64url =
     (let base64 = replace_all (CHR ''_'') ''/'' (replace_all (CHR ''-'') ''+'' base64url);
          paddedBase64 =
            padEnd base64 (length base64 + ((4 - length base64 mod 4) mod 4)) (CHR ''='')
      in case atob paddedBase64 of
           Inl e \<Rightarrow> Inl e
         | Inr binary \<Rightarrow> Inr (map charCodeAt_u8 binary))"

text \<open>
  A well-formed padding-free URL-safe encoding, in the sense of RFC 4648 (sections 3.5
  and 5): characters of the URL-safe alphabet only, a length that is not 1 modulo 4, and
  zero bits where the last character carries bits that belong to no byte.
\<close>

definition base64url_table :: string where
  "base64url_table = ''ABCDEFGHIJKLMNOPQRSTUVWXYZabcdefghijklmnopqrstuvwxyz0123456789-_''"

definition wellformed_base64url :: "string \<Rightarrow> bool" where
  "wellformed_base64url t =
     (list_all (\<lambda>c. c \<in> set base64url_table) t \<and> length t mod 4 \<noteq> 1 \<and>
      (length t mod 4 = 2 \<longrightarrow> index_of base64url_table (last t) mod 16 = 0) \<and>
      (length t mod 4 = 3 \<longrightarrow> index_of base64url_table (last t) mod 4 = 0))"

subsection \<open>Values of type \<^verbatim>\<open>any\<close>\<close>

text \<open>
  What \<^verbatim>\<open>JSON.parse\<close> yields, together with \<^verbatim>\<open>undefined\<close> and
  \<^verbatim>\<open>ArrayBuffer\<close>, which the program itself puts into objects. An object is the list
  of its own properties in their order; \<open>JNum nonzero t\<close> is a number, kept as what
  the program can observe of it: whether it is truthy (neither 0 nor NaN) and its
  \<^verbatim>\<open>ToString\<close> text.
\<close>

datatype jsval =
    JUndefined
  | JNull
  | JBool bool
  | JNum bool string
  | JStr string
  | JBuf "u8 list"
  | JArr "jsval list"
  | JObj "(string \<times> jsval) list"

fun truthy :: "jsval \<Rightarrow> bool" where
  "truthy JUndefined = False"
| "truthy JNull = False"
| "truthy (JBool b) = b"
| "truthy (JNum nonzero t) = nonzero"
| "truthy (JStr s) = (s \<noteq> [])"
| "truthy (JBuf b) = True"
| "truthy (JArr xs) = True"
| "truthy (JObj fs) = True"

text \<open>\<^verbatim>\<open>a || b\<close>, both operands already evaluated.\<close>

definition js_or :: "jsval \<Rightarrow> jsval \<Rightarrow> jsval" where
  "js_or a b = (if truthy a then a else b)"

fun join :: "string \<Rightarrow> string list \<Rightarrow> string" where
  "join sep [] = []"
| "join sep [x] = x"
| "join sep (x # y # ys) = x @ sep @ join sep (y # ys)"

text \<open>\<^verbatim>\<open>ToString\<close>, which \<^verbatim>\<open>new Error(x)\<close> applies to its argument.\<close>

fun to_string :: "jsval \<Rightarrow> string" where
  "to_string JUndefined = ''undefined''"
| "to_string JNull = ''null''"
| "to_string (JBool b) = (if b then ''true'' else ''false'')"
| "to_string (JNum nonzero t) = t"
| "to_string (JStr s) = s"
| "to_string (JBuf b) = ''[object ArrayBuffer]''"
| "to_string (JArr xs) =
     join '','' (map (\<lambda>x. if x = JUndefined \<or> x = JNull then [] else to_string x) xs)"
| "to_string (JObj fs) = ''[object Object]''"

definition new_Error :: "jsval \<Rightarrow> thrown" where
  "new_Error message = Error (to_string message)"

text \<open>
  Property access. The program reads the properties \<^verbatim>\<open>success\<close>, \<^verbatim>\<open>data\<close>,
  \<^verbatim>\<open>error\<close>, \<^verbatim>\<open>message\<close>, \<^verbatim>\<open>publicKey\<close>, \<^verbatim>\<open>sessionId\<close>,
  \<^verbatim>\<open>challenge\<close>, \<^verbatim>\<open>user\<close>, \<^verbatim>\<open>id\<close>, \<^verbatim>\<open>excludeCredentials\<close>,
  \<^verbatim>\<open>allowCredentials\<close>, \<^verbatim>\<open>token\<close>; no primitive, array, buffer or object
  prototype has one of these, so only an object's own properties answer.
\<close>

definition prop_of :: "(string \<times> jsval) list \<Rightarrow> string \<Rightarrow> jsval" where
  "prop_of fs k = (case map_of fs k of None \<Rightarrow> JUndefined | Some v \<Rightarrow> v)"

fun get_prop :: "jsval \<Rightarrow> string \<Rightarrow> thrown + jsval" where
  "get_prop JUndefined k = Inl (TypeError (ReadOfNullish k))"
| "get_prop JNull k = Inl (TypeError (ReadOfNullish k))"
| "get_prop (JObj fs) k = Inr (prop_of fs k)"
| "get_prop v k = Inr JUndefined"

text \<open>
  A property of an object literal: an existing key keeps its place and takes the new
  value, a new key goes to the end.
\<close>

fun set_prop :: "string \<Rightarrow> jsval \<Rightarrow> (string \<times> jsval) list \<Rightarrow> (string \<times> jsval) list" where
  "set_prop k v [] = [(k, v)]"
| "set_prop k v (p # ps) = (if fst p = k then (k, v) # ps else p # set_prop k v ps)"

fun string_of_nat :: "nat \<Rightarrow> string" where
  "string_of_nat n =
     (if n < 10 then [char_of (48 + n)]
      else string_of_nat (n div 10) @ [char_of (48 + n mod 10)])"

text \<open>
  The own enumerable properties that \<^verbatim>\<open>{...v}\<close> copies: those of an object; the
  indexed elements of an array or string; none of anything else.
\<close>

fun own_properties :: "jsval \<Rightarrow> (string \<times> jsval) list" where
  "own_properties (JObj fs) = fs"
| "own_properties (JArr xs) = zip (map string_of_nat [0..<length xs]) xs"
| "own_properties (JStr s) = zip (map string_of_nat [0..<length s]) (map (\<lambda>c. JStr [c]) s)"
| "own_properties v = []"

subsection \<open>\<^verbatim>\<open>JSON.stringify\<close>\<close>

definition hex_digit :: "nat \<Rightarrow> char" where
  "hex_digit n = ''0123456789abcdef'' ! n"

definition json_quote_char :: "char \<Rightarrow> string" where
  "json_quote_char c =
     (if c = CHR 0x22 then [CHR 0x5C, CHR 0x22]
      else if c = CHR 0x5C then [CHR 0x5C, CHR 0x5C]
      else if c = CHR 0x08 then [CHR 0x5C, CHR ''b'']
      else if c = CHR 0x0C then [CHR 0x5C, CHR ''f'']
      else if c = CHR 0x0A then [CHR 0x5C, CHR ''n'']
      else if c = CHR 0x0D then [CHR 0x5C, CHR ''r'']
      else if c = CHR 0x09 then [CHR 0x5C, CHR ''t'']
      else if (of_char c :: nat) < 32
        then [CHR 0x5C, CHR ''u'', CHR ''0'', CHR ''0'',
              hex_digit (of_char c div 16), hex_digit (of_char c mod 16)]
      else [c])"

definition json_quote :: "string \<Rightarrow> string" where
  "json_quote s = CHR 0x22 # concat (map json_quote_char s) @ [CHR 0x22]"

text \<open>
  A property whose value is \<^verbatim>\<open>undefined\<close> is left out of an object; in an array
  it is written \<^verbatim>\<open>null\<close>. An \<^verbatim>\<open>ArrayBuffer\<close> has no enumerable property of
  its own. The numbers of this program come from \<^verbatim>\<open>JSON.parse\<close> and are finite.
\<close>

fun json_stringify :: "jsval \<Rightarrow> string option"
  and stringify_elements :: "jsval list \<Rightarrow> string list"
  and stringify_members :: "(string \<times> jsval) list \<Rightarrow> string list"
where
  "json_stringify JUndefined = None"
| "json_stringify JNull = Some ''null''"
| "json_stringify (JBool b) = Some (if b then ''true'' else ''false'')"
| "json_stringify (JNum nonzero t) = Some t"
| "json_stringify (JStr s) = Some (json_quote s)"
| "json_stringify (JBuf b) = Some ''{}''"
| "json_stringify (JArr xs) = Some (''['' @ join '','' (stringify_elements xs) @ '']'')"
| "json_stringify (JObj fs) = Some (''{'' @ join '','' (stringify_members fs) @ ''}'')"
| "stringify_elements [] = []"
| "stringify_elements (x # xs) =
     (case json_stringify x of None \<Rightarrow> ''null'' | Some t \<Rightarrow> t) # stringify_elements xs"
| "stringify_members [] = []"
| "stringify_members (kv # fs) =
     (case json_stringify (snd kv) of
        None \<Rightarrow> stringify_members fs
      | Some t \<Rightarrow> (json_quote (fst kv) @ '':'' @ t) # stringify_members fs)"

text \<open>\<^verbatim>\<open>JSON.stringify\<close> of an object literal: always a string.\<close>

definition stringify_object :: "(string \<times> jsval) list \<Rightarrow> string" where
  "stringify_object fs = ''{'' @ join '','' (stringify_members fs) @ ''}''"

subsection \<open>Decoding the challenge options\<close>

text \<open>
  \<^verbatim>\<open>base64URLToBuffer(v)\<close> for \<^verbatim>\<open>v\<close> of type \<^verbatim>\<open>any\<close>: its first step is
  \<^verbatim>\<open>v.replace(...)\<close>, which only a string has.
\<close>

fun call_base64URLToBuffer :: "jsval \<Rightarrow> thrown + u8 list" where
  "call_base64URLToBuffer (JStr s) = base64URLToBuffer s"
| "call_base64URLToBuffer JUndefined = Inl (TypeError (ReadOfNullish ''replace''))"
| "call_base64URLToBuffer JNull = Inl (TypeError (ReadOfNullish ''replace''))"
| "call_base64URLToBuffer v = Inl (TypeError (NotAFunction ''replace''))"

text \<open>The arrow function \<^verbatim>\<open>(cred) => ({...cred, id: base64URLToBuffer(cred.id)})\<close>.\<close>

definition decode_descriptor :: "jsval \<Rightarrow> thrown + jsval" where
  "decode_descriptor cred =
     bindE (get_prop cred ''id'') (\<lambda>cred_id.
     bindE (call_base64URLToBuffer cred_id) (\<lambda>buffer.
     Inr (JObj (set_prop ''id'' (JBuf buffer) (own_properties cred)))))"

text \<open>\<^verbatim>\<open>v?.map(f)\<close>: \<^verbatim>\<open>undefined\<close> for a nullish \<^verbatim>\<open>v\<close>; only an array has \<^verbatim>\<open>map\<close>.\<close>

fun optional_map :: "(jsval \<Rightarrow> thrown + jsval) \<Rightarrow> jsval \<Rightarrow> thrown + jsval" where
  "optional_map f JUndefined = Inr JUndefined"
| "optional_map f JNull = Inr JUndefined"
| "optional_map f (JArr xs) = bindE (mapE f xs) (\<lambda>ys. Inr (JArr ys))"
| "optional_map f v = Inl (TypeError (NotAFunction ''map''))"

definition decodeCreationOptions :: "jsval \<Rightarrow> thrown + jsval" where
  "decodeCreationOptions options =
     bindE (get_prop options ''challenge'') (\<lambda>challenge.
     bindE (call_base64URLToBuffer challenge) (\<lambda>challenge_buffer.
     bindE (get_prop options ''user'') (\<lambda>user.
     bindE (get_prop user ''id'') (\<lambda>user_id.
     bindE (call_base64URLToBuffer user_id) (\<lambda>user_id_buffer.
     bindE (get_prop options ''excludeCredentials'') (\<lambda>excludeCredentials.
     bindE (optional_map decode_descriptor excludeCredentials) (\<lambda>excluded.
     Inr (JObj
       (set_prop ''excludeCredentials'' excluded
       (set_prop ''user'' (JObj (set_prop ''id'' (JBuf user_id_buffer) (own_properties user)))
       (set_prop ''challenge'' (JBuf challenge_buffer)
       (own_properties options))))))))))))"

definition decodeRequestOptions :: "jsval \<Rightarrow> thrown + jsval" where
  "decodeRequestOptions options =
     bindE (get_prop options ''challenge'') (\<lambda>challenge.
     bindE (call_base64URLToBuffer challenge) (\<lambda>challenge_buffer.
     bindE (get_prop options ''allowCredentials'') (\<lambda>allowCredentials.
     bindE (optional_map decode_descriptor allowCredentials) (\<lambda>allowed.
     Inr (JObj
       (set_prop ''allowCredentials'' allowed
       (set_prop ''challenge'' (JBuf challenge_buffer)
       (own_properties options))))))))"

subsection \<open>The host\<close>

text \<open>
  What \<^verbatim>\<open>typeof x\<close> and \<^verbatim>\<open>x !== undefined\<close> can tell of a global.
\<close>

datatype global_value = GlobalUndefined | GlobalFunction | GlobalOther

record window_object =
  PublicKeyCredential :: global_value

text \<open>
  The credential the platform returns: \<^verbatim>\<open>PublicKeyCredential\<close> with an attestation
  response (\<^verbatim>\<open>credentials.create\<close>) or an assertion response
  (\<^verbatim>\<open>credentials.get\<close>). \<^verbatim>\<open>userHandle\<close> is an \<^verbatim>\<open>ArrayBuffer\<close> or
  \<^verbatim>\<open>null\<close>.
\<close>

record attestation_response =
  attestationObject :: "u8 list"
  clientDataJSON :: "u8 list"

record assertion_response =
  authenticatorData :: "u8 list"
  assertion_clientDataJSON :: "u8 list"
  signature :: "u8 list"
  userHandle :: "u8 list option"

record 'r public_key_credential =
  credential_id :: string
  rawId :: "u8 list"
  credential_type :: string
  response :: 'r

text \<open>
  The outcome of a request: \<^verbatim>\<open>fetch\<close> rejects (a network error, or the abort of
  the request), or resolves with a response, of which the program reads
  \<^verbatim>\<open>ok\<close> and \<^verbatim>\<open>json()\<close>; the latter rejects or resolves with a value.
\<close>

datatype json_outcome = JsonRejects thrown | JsonResolves jsval

datatype fetch_outcome = FetchRejects thrown | FetchResolves bool json_outcome

datatype 'c credential_outcome = CredentialRejects thrown | CredentialResolves "'c option"

text \<open>
  \<open>window\<close> is \<open>None\<close> where \<^verbatim>\<open>typeof window\<close> is \<^verbatim>\<open>'undefined'\<close>.
  \<open>localStorage_setItem\<close> says what a write throws, if it does. The two messages are the
  engine's wording of a \<^verbatim>\<open>TypeError\<close> and of \<^verbatim>\<open>atob\<close>'s exception.
\<close>

record world =
  window :: "window_object option"
  EXPO_PUBLIC_API_URL :: "string option"
  fetch :: "string \<Rightarrow> string \<Rightarrow> fetch_outcome"
  credentials_create :: "jsval \<Rightarrow> attestation_response public_key_credential credential_outcome"
  credentials_get :: "jsval \<Rightarrow> assertion_response public_key_credential credential_outcome"
  localStorage_setItem :: "string \<Rightarrow> string \<Rightarrow> thrown option"
  type_error_message :: "type_error \<Rightarrow> string"
  invalid_character_message :: string

text \<open>
  The effects, in the order they happen. \<open>Fetch url body\<close> is a \<^verbatim>\<open>POST\<close> of
  \<open>body\<close> to \<open>url\<close>; method, headers, credentials mode and abort signal are the same in
  all four requests.
\<close>

datatype event =
    SetTimeout nat
  | ClearTimeout
  | Fetch string string
  | CredentialsCreate jsval
  | CredentialsGet jsval
  | SetItem string string
  | ConsoleError string thrown

type_synonym storage = "string \<rightharpoonup> string"

type_synonym 'a io = "storage \<Rightarrow> (thrown + 'a) \<times> event list \<times> storage"

definition io_return :: "'a \<Rightarrow> 'a io" where
  "io_return x = (\<lambda>s. (Inr x, [], s))"

definition io_lift :: "thrown + 'a \<Rightarrow> 'a io" where
  "io_lift r = (\<lambda>s. (r, [], s))"

definition io_emit :: "event \<Rightarrow> unit io" where
  "io_emit ev = (\<lambda>s. (Inr (), [ev], s))"

definition io_bind :: "'a io \<Rightarrow> ('a \<Rightarrow> 'b io) \<Rightarrow> 'b io" where
  "io_bind m f =
     (\<lambda>s. case m s of
        (Inl e, evs, s1) \<Rightarrow> (Inl e, evs, s1)
      | (Inr x, evs, s1) \<Rightarrow> (case f x s1 of (r, evs2, s2) \<Rightarrow> (r, evs @ evs2, s2)))"

text \<open>\<^verbatim>\<open>try { m } catch (error) { h error }\<close> and \<^verbatim>\<open>try { m } finally { fin }\<close>.\<close>

definition io_catch :: "'a io \<Rightarrow> (thrown \<Rightarrow> 'a io) \<Rightarrow> 'a io" where
  "io_catch m h =
     (\<lambda>s. case m s of
        (Inl e, evs, s1) \<Rightarrow> (case h e s1 of (r, evs2, s2) \<Rightarrow> (r, evs @ evs2, s2))
      | (Inr x, evs, s1) \<Rightarrow> (Inr x, evs, s1))"

definition io_finally :: "'a io \<Rightarrow> unit io \<Rightarrow> 'a io" where
  "io_finally m fin =
     (\<lambda>s. case m s of (r, evs, s1) \<Rightarrow>
        (case fin s1 of
           (Inl e, evs2, s2) \<Rightarrow> (Inl e, evs @ evs2, s2)
         | (Inr u, evs2, s2) \<Rightarrow> (r, evs @ evs2, s2)))"

definition io_fetch :: "world \<Rightarrow> string \<Rightarrow> string \<Rightarrow> (bool \<times> json_outcome) io" where
  "io_fetch w url body =
     (\<lambda>s. (case fetch w url body of
              FetchRejects e \<Rightarrow> Inl e
            | FetchResolves ok json \<Rightarrow> Inr (ok, json),
            [Fetch url body], s))"

definition io_credentials_create ::
  "world \<Rightarrow> jsval \<Rightarrow> attestation_response public_key_credential option io" where
  "io_credentials_create w options =
     (\<lambda>s. (case credentials_create w options of
              CredentialRejects e \<Rightarrow> Inl e
            | CredentialResolves c \<Rightarrow> Inr c,
            [CredentialsCreate options], s))"

definition io_credentials_get ::
  "world \<Rightarrow> jsval \<Rightarrow> assertion_response public_key_credential option io" where
  "io_credentials_get w options =
     (\<lambda>s. (case credentials_get w options of
              CredentialRejects e \<Rightarrow> Inl e
            | CredentialResolves c \<Rightarrow> Inr c,
            [CredentialsGet options], s))"

definition io_setItem :: "world \<Rightarrow> string \<Rightarrow> string \<Rightarrow> unit io" where
  "io_setItem w k v =
     (\<lambda>s. case localStorage_setItem w k v of
        None \<Rightarrow> (Inr (), [SetItem k v], s(k \<mapsto> v))
      | Some e \<Rightarrow> (Inl e, [SetItem k v], s))"

text \<open>\<^verbatim>\<open>await response.json()\<close>, and the same with \<^verbatim>\<open>.catch(() => ({ error: ... }))\<close>.\<close>

definition await_json :: "json_outcome \<Rightarrow> thrown + jsval" where
  "await_json json = (case json of JsonRejects e \<Rightarrow> Inl e | JsonResolves v \<Rightarrow> Inr v)"

definition await_json_catch :: "json_outcome \<Rightarrow> jsval \<Rightarrow> jsval" where
  "await_json_catch json fallback = (case json of JsonRejects e \<Rightarrow> fallback | JsonResolves v \<Rightarrow> v)"

text \<open>\<^verbatim>\<open>error instanceof Error\<close> and \<^verbatim>\<open>error.message\<close>.\<close>

fun instanceof_Error :: "thrown \<Rightarrow> bool" where
  "instanceof_Error (Error m) = True"
| "instanceof_Error (TypeError site) = True"
| "instanceof_Error InvalidCharacterError = True"
| "instanceof_Error (HostError is_error m) = is_error"

fun message_of :: "world \<Rightarrow> thrown \<Rightarrow> string" where
  "message_of w (Error m) = m"
| "message_of w (TypeError site) = type_error_message w site"
| "message_of w InvalidCharacterError = invalid_character_message w"
| "message_of w (HostError is_error m) = m"

subsection \<open>The message literals\<close>

text \<open>
  The messages of the source are Japanese; each is given as the bytes of its UTF-8 form,
  with its meaning in English.
\<close>

text \<open>``Network error''.\<close>

definition msg_network_error :: string where
  "msg_network_error =
     [CHR 0xE3, CHR 0x83, CHR 0x8D, CHR 0xE3, CHR 0x83, CHR 0x83, CHR 0xE3, CHR 0x83, CHR 0x88,
      CHR 0xE3, CHR 0x83, CHR 0xAF, CHR 0xE3, CHR 0x83, CHR 0xBC, CHR 0xE3, CHR 0x82, CHR 0xAF,
      CHR 0xE3, CHR 0x82, CHR 0xA8, CHR 0xE3, CHR 0x83, CHR 0xA9, CHR 0xE3, CHR 0x83, CHR 0xBC]"

text \<open>``Failed to start registration''.\<close>

definition msg_register_begin_failed :: string where
  "msg_register_begin_failed =
     [CHR 0xE7, CHR 0x99, CHR 0xBB, CHR 0xE9, CHR 0x8C, CHR 0xB2, CHR 0xE9, CHR 0x96, CHR 0x8B,
      CHR 0xE5, CHR 0xA7, CHR 0x8B, CHR 0xE3, CHR 0x81, CHR 0xAB, CHR 0xE5, CHR 0xA4, CHR 0xB1,
      CHR 0xE6, CHR 0x95, CHR 0x97, CHR 0xE3, CHR 0x81, CHR 0x97, CHR 0xE3, CHR 0x81, CHR 0xBE,
      CHR 0xE3, CHR 0x81, CHR 0x97, CHR 0xE3, CHR 0x81, CHR 0x9F]"

text \<open>``Failed to complete registration''.\<close>

definition msg_register_finish_failed :: string where
  "msg_register_finish_failed =
     [CHR 0xE7, CHR 0x99, CHR 0xBB, CHR 0xE9, CHR 0x8C, CHR 0xB2, CHR 0xE5, CHR 0xAE, CHR 0x8C,
      CHR 0xE4, CHR 0xBA, CHR 0x86, CHR 0xE3, CHR 0x81, CHR 0xAB, CHR 0xE5, CHR 0xA4, CHR 0xB1,
      CHR 0xE6, CHR 0x95, CHR 0x97, CHR 0xE3, CHR 0x81, CHR 0x97, CHR 0xE3, CHR 0x81, CHR 0xBE,
      CHR 0xE3, CHR 0x81, CHR 0x97, CHR 0xE3, CHR 0x81, CHR 0x9F]"

text \<open>``Failed to start authentication''.\<close>

definition msg_login_begin_failed :: string where
  "msg_login_begin_failed =
     [CHR 0xE8, CHR 0xAA, CHR 0x8D, CHR 0xE8, CHR 0xA8, CHR 0xBC, CHR 0xE9, CHR 0x96, CHR 0x8B,
      CHR 0xE5, CHR 0xA7, CHR 0x8B, CHR 0xE3, CHR 0x81, CHR 0xAB, CHR 0xE5, CHR 0xA4, CHR 0xB1,
      CHR 0xE6, CHR 0x95, CHR 0x97, CHR 0xE3, CHR 0x81, CHR 0x97, CHR 0xE3, CHR 0x81, CHR 0xBE,
      CHR 0xE3, CHR 0x81, CHR 0x97, CHR 0xE3, CHR 0x81, CHR 0x9F]"

text \<open>``Failed to complete authentication''.\<close>

definition msg_login_finish_failed :: string where
  "msg_login_finish_failed =
     [CHR 0xE8, CHR 0xAA, CHR 0x8D, CHR 0xE8, CHR 0xA8, CHR 0xBC, CHR 0xE5, CHR 0xAE, CHR 0x8C,
      CHR 0xE4, CHR 0xBA, CHR 0x86, CHR 0xE3, CHR 0x81, CHR 0xAB, CHR 0xE5, CHR 0xA4, CHR 0xB1,
      CHR 0xE6, CHR 0x95, CHR 0x97, CHR 0xE3, CHR 0x81, CHR 0x97, CHR 0xE3, CHR 0x81, CHR 0xBE,
      CHR 0xE3, CHR 0x81, CHR 0x97, CHR 0xE3, CHR 0x81, CHR 0x9F]"

text \<open>``WebAuthn is not supported in this browser''.\<close>

definition msg_webauthn_unsupported :: string where
  "msg_webauthn_unsupported =
     [CHR 0x57, CHR 0x65, CHR 0x62, CHR 0x41, CHR 0x75, CHR 0x74, CHR 0x68, CHR 0x6E, CHR 0xE3,
      CHR 0x81, CHR 0xAF, CHR 0xE3, CHR 0x81, CHR 0x93, CHR 0xE3, CHR 0x81, CHR 0xAE, CHR 0xE3,
      CHR 0x83, CHR 0x96, CHR 0xE3, CHR 0x83, CHR 0xA9, CHR 0xE3, CHR 0x82, CHR 0xA6, CHR 0xE3,
      CHR 0x82, CHR 0xB6, CHR 0xE3, CHR 0x81, CHR 0xA7, CHR 0xE3, CHR 0x81, CHR 0xAF, CHR 0xE3,
      CHR 0x82, CHR 0xB5, CHR 0xE3, CHR 0x83, CHR 0x9D, CHR 0xE3, CHR 0x83, CHR 0xBC, CHR 0xE3,
      CHR 0x83, CHR 0x88, CHR 0xE3, CHR 0x81, CHR 0x95, CHR 0xE3, CHR 0x82, CHR 0x8C, CHR 0xE3,
      CHR 0x81, CHR 0xA6, CHR 0xE3, CHR 0x81, CHR 0x84, CHR 0xE3, CHR 0x81, CHR 0xBE, CHR 0xE3,
      CHR 0x81, CHR 0x9B, CHR 0xE3, CHR 0x82, CHR 0x93]"

text \<open>``Failed to create the credential''.\<close>

definition msg_credential_creation_failed :: string where
  "msg_credential_creation_failed =
     [CHR 0xE8, CHR 0xAA, CHR 0x8D, CHR 0xE8, CHR 0xA8, CHR 0xBC, CHR 0xE6, CHR 0x83, CHR 0x85,
      CHR 0xE5, CHR 0xA0, CHR 0xB1, CHR 0xE3, CHR 0x81, CHR 0xAE, CHR 0xE7, CHR 0x94, CHR 0x9F,
      CHR 0xE6, CHR 0x88, CHR 0x90, CHR 0xE3, CHR 0x81, CHR 0xAB, CHR 0xE5, CHR 0xA4, CHR 0xB1,
      CHR 0xE6, CHR 0x95, CHR 0x97, CHR 0xE3, CHR 0x81, CHR 0x97, CHR 0xE3, CHR 0x81, CHR 0xBE,
      CHR 0xE3, CHR 0x81, CHR 0x97, CHR 0xE3, CHR 0x81, CHR 0x9F]"

text \<open>``Authentication failed''.\<close>

definition msg_authentication_failed :: string where
  "msg_authentication_failed =
     [CHR 0xE8, CHR 0xAA, CHR 0x8D, CHR 0xE8, CHR 0xA8, CHR 0xBC, CHR 0xE3, CHR 0x81, CHR 0xAB,
      CHR 0xE5, CHR 0xA4, CHR 0xB1, CHR 0xE6, CHR 0x95, CHR 0x97, CHR 0xE3, CHR 0x81, CHR 0x97,
      CHR 0xE3, CHR 0x81, CHR 0xBE, CHR 0xE3, CHR 0x81, CHR 0x97, CHR 0xE3, CHR 0x81, CHR 0x9F]"

text \<open>``An error occurred during registration''.\<close>

definition msg_registration_error :: string where
  "msg_registration_error =
     [CHR 0xE7, CHR 0x99, CHR 0xBB, CHR 0xE9, CHR 0x8C, CHR 0xB2, CHR 0xE4, CHR 0xB8, CHR 0xAD,
      CHR 0xE3, CHR 0x81, CHR 0xAB, CHR 0xE3, CHR 0x82, CHR 0xA8, CHR 0xE3, CHR 0x83, CHR 0xA9,
      CHR 0xE3, CHR 0x83, CHR 0xBC, CHR 0xE3, CHR 0x81, CHR 0x8C, CHR 0xE7, CHR 0x99, CHR 0xBA,
      CHR 0xE7, CHR 0x94, CHR 0x9F, CHR 0xE3, CHR 0x81, CHR 0x97, CHR 0xE3, CHR 0x81, CHR 0xBE,
      CHR 0xE3, CHR 0x81, CHR 0x97, CHR 0xE3, CHR 0x81, CHR 0x9F]"

text \<open>``An error occurred during authentication''.\<close>

definition msg_authentication_error :: string where
  "msg_authentication_error =
     [CHR 0xE8, CHR 0xAA, CHR 0x8D, CHR 0xE8, CHR 0xA8, CHR 0xBC, CHR 0xE4, CHR 0xB8, CHR 0xAD,
      CHR 0xE3, CHR 0x81, CHR 0xAB, CHR 0xE3, CHR 0x82, CHR 0xA8, CHR 0xE3, CHR 0x83, CHR 0xA9,
      CHR 0xE3, CHR 0x83, CHR 0xBC, CHR 0xE3, CHR 0x81, CHR 0x8C, CHR 0xE7, CHR 0x99, CHR 0xBA,
      CHR 0xE7, CHR 0x94, CHR 0x9F, CHR 0xE3, CHR 0x81, CHR 0x97, CHR 0xE3, CHR 0x81, CHR 0xBE,
      CHR 0xE3, CHR 0x81, CHR 0x97, CHR 0xE3, CHR 0x81, CHR 0x9F]"

subsection \<open>The four calls\<close>

definition API_BASE_URL :: "world \<Rightarrow> string" where
  "API_BASE_URL w =
     (case EXPO_PUBLIC_API_URL w of
        None \<Rightarrow> ''http://localhost:8080''
      | Some url \<Rightarrow> if url = [] then ''http://localhost:8080'' else url)"

definition REQUEST_TIMEOUT :: nat where
  "REQUEST_TIMEOUT = 60000"

record begin_response =
  publicKey :: jsval
  sessionId :: jsval

text \<open>
  In \<^verbatim>\<open>error.error || error.message || fallback\<close> the two reads are written before
  the choice: they fail together (on a nullish \<^verbatim>\<open>error\<close>) and have no effect.
  The same holds for \<^verbatim>\<open>!data.success || !data.data\<close>.
\<close>

definition beginRegistration :: "world \<Rightarrow> string \<Rightarrow> string \<Rightarrow> begin_response io" where
  "beginRegistration w email username =
     io_bind (io_emit (SetTimeout REQUEST_TIMEOUT)) (\<lambda>timeoutId.
     io_finally
       (io_bind
          (io_fetch w (API_BASE_URL w @ ''/api/v1/auth/register/begin'')
             (stringify_object [(''email'', JStr email), (''username'', JStr username)]))
          (\<lambda>(ok, json). io_lift
             (if \<not> ok then
                (let error = await_json_catch json (JObj [(''error'', JStr msg_network_error)])
                 in bindE (get_prop error ''error'') (\<lambda>error_error.
                    bindE (get_prop error ''message'') (\<lambda>error_message.
                    Inl (new_Error
                      (js_or error_error
                        (js_or error_message (JStr msg_register_begin_failed)))))))
              else
                bindE (await_json json) (\<lambda>data.
                bindE (get_prop data ''success'') (\<lambda>data_success.
                bindE (get_prop data ''data'') (\<lambda>data_data.
                if \<not> truthy data_success \<or> \<not> truthy data_data then
                  bindE (get_prop data ''error'') (\<lambda>data_error.
                  Inl (new_Error (js_or data_error (JStr msg_register_begin_failed))))
                else
                  bindE (get_prop data_data ''publicKey'') (\<lambda>data_publicKey.
                  bindE (decodeCreationOptions data_publicKey) (\<lambda>options.
                  bindE (get_prop data_data ''sessionId'') (\<lambda>data_sessionId.
                  Inr \<lparr>publicKey = options, sessionId = data_sessionId\<rparr>)))))))))
       (io_emit ClearTimeout))"

text \<open>The local constant \<^verbatim>\<open>requestData\<close> of \<^verbatim>\<open>finishRegistration\<close>.\<close>

definition finishRegistration_requestData ::
  "jsval \<Rightarrow> attestation_response public_key_credential \<Rightarrow> (string \<times> jsval) list" where
  "finishRegistration_requestData session_id credential =
     [(''sessionId'', session_id),
      (''credential'', JObj
         [(''id'', JStr (credential_id credential)),
          (''rawId'', JStr (bufferToBase64URL (rawId credential))),
          (''type'', JStr (credential_type credential)),
          (''response'', JObj
             [(''attestationObject'',
                 JStr (bufferToBase64URL (attestationObject (response credential)))),
              (''clientDataJSON'',
                 JStr (bufferToBase64URL (clientDataJSON (response credential))))])])]"

definition finishRegistration ::
  "world \<Rightarrow> jsval \<Rightarrow> attestation_response public_key_credential \<Rightarrow> jsval io" where
  "finishRegistration w session_id credential =
     io_bind (io_emit (SetTimeout REQUEST_TIMEOUT)) (\<lambda>timeoutId.
     io_finally
       (let requestData = finishRegistration_requestData session_id credential
        in io_bind
          (io_fetch w (API_BASE_URL w @ ''/api/v1/auth/register/finish'')
             (stringify_object requestData))
          (\<lambda>(ok, json). io_lift
             (if \<not> ok then
                (let error = await_json_catch json (JObj [(''error'', JStr msg_network_error)])
                 in bindE (get_prop error ''error'') (\<lambda>error_error.
                    bindE (get_prop error ''message'') (\<lambda>error_message.
                    Inl (new_Error
                      (js_or error_error
                        (js_or error_message (JStr msg_register_finish_failed)))))))
              else
                bindE (await_json json) (\<lambda>data.
                bindE (get_prop data ''success'') (\<lambda>data_success.
                if \<not> truthy data_success then
                  bindE (get_prop data ''error'') (\<lambda>data_error.
                  Inl (new_Error (js_or data_error (JStr msg_register_finish_failed))))
                else
                  bindE (get_prop data ''data'') (\<lambda>data_data.
                  Inr (js_or data_data (JObj []))))))))
       (io_emit ClearTimeout))"

definition beginLogin :: "world \<Rightarrow> string \<Rightarrow> begin_response io" where
  "beginLogin w email =
     io_bind (io_emit (SetTimeout REQUEST_TIMEOUT)) (\<lambda>timeoutId.
     io_finally
       (io_bind
          (io_fetch w (API_BASE_URL w @ ''/api/v1/auth/login/begin'')
             (stringify_object [(''email'', JStr email)]))
          (\<lambda>(ok, json). io_lift
             (if \<not> ok then
                (let error = await_json_catch json (JObj [(''error'', JStr msg_network_error)])
                 in bindE (get_prop error ''error'') (\<lambda>error_error.
                    bindE (get_prop error ''message'') (\<lambda>error_message.
                    Inl (new_Error
                      (js_or error_error
                        (js_or error_message (JStr msg_login_begin_failed)))))))
              else
                bindE (await_json json) (\<lambda>data.
                bindE (get_prop data ''success'') (\<lambda>data_success.
                bindE (get_prop data ''data'') (\<lambda>data_data.
                if \<not> truthy data_success \<or> \<not> truthy data_data then
                  bindE (get_prop data ''error'') (\<lambda>data_error.
                  Inl (new_Error (js_or data_error (JStr msg_login_begin_failed))))
                else
                  bindE (get_prop data_data ''publicKey'') (\<lambda>data_publicKey.
                  bindE (decodeRequestOptions data_publicKey) (\<lambda>options.
                  bindE (get_prop data_data ''sessionId'') (\<lambda>data_sessionId.
                  Inr \<lparr>publicKey = options, sessionId = data_sessionId\<rparr>)))))))))
       (io_emit ClearTimeout))"

text \<open>
  The local constant \<^verbatim>\<open>requestData\<close> of \<^verbatim>\<open>finishLogin\<close>. In
  \<^verbatim>\<open>response.userHandle ? bufferToBase64URL(response.userHandle) : undefined\<close> the
  test is on an \<^verbatim>\<open>ArrayBuffer\<close> or \<^verbatim>\<open>null\<close>: an object is truthy whatever
  its length.
\<close>

definition finishLogin_requestData ::
  "jsval \<Rightarrow> assertion_response public_key_credential \<Rightarrow> (string \<times> jsval) list" where
  "finishLogin_requestData session_id credential =
     [(''sessionId'', session_id),
      (''credential'', JObj
         [(''id'', JStr (credential_id credential)),
          (''rawId'', JStr (bufferToBase64URL (rawId credential))),
          (''type'', JStr (credential_type credential)),
          (''response'', JObj
             [(''authenticatorData'',
                 JStr (bufferToBase64URL (authenticatorData (response credential)))),
              (''clientDataJSON'',
                 JStr (bufferToBase64URL (assertion_clientDataJSON (response credential)))),
              (''signature'', JStr (bufferToBase64URL (signature (response credential)))),
              (''userHandle'',
                 (case userHandle (response credential) of
                    Some buffer \<Rightarrow> JStr (bufferToBase64URL buffer)
                  | None \<Rightarrow> JUndefined))])])]"

definition finishLogin ::
  "world \<Rightarrow> jsval \<Rightarrow> assertion_response public_key_credential \<Rightarrow> jsval io" where
  "finishLogin w session_id credential =
     io_bind (io_emit (SetTimeout REQUEST_TIMEOUT)) (\<lambda>timeoutId.
     io_finally
       (let requestData = finishLogin_requestData session_id credential
        in io_bind
          (io_fetch w (API_BASE_URL w @ ''/api/v1/auth/login/finish'')
             (stringify_object requestData))
          (\<lambda>(ok, json). io_lift
             (if \<not> ok then
                (let error = await_json_catch json (JObj [(''error'', JStr msg_network_error)])
                 in bindE (get_prop error ''error'') (\<lambda>error_error.
                    bindE (get_prop error ''message'') (\<lambda>error_message.
                    Inl (new_Error
                      (js_or error_error
                        (js_or error_message (JStr msg_login_finish_failed)))))))
              else
                bindE (await_json json) (\<lambda>data.
                bindE (get_prop data ''success'') (\<lambda>data_success.
                if \<not> truthy data_success then
                  bindE (get_prop data ''error'') (\<lambda>data_error.
                  Inl (new_Error (js_or data_error (JStr msg_login_finish_failed))))
                else
                  bindE (get_prop data ''data'') (\<lambda>data_data.
                  Inr (js_or data_data (JObj []))))))))
       (io_emit ClearTimeout))"

subsection \<open>The ceremonies\<close>

definition isWebAuthnSupported :: "world \<Rightarrow> bool" where
  "isWebAuthnSupported w =
     (case window w of
        None \<Rightarrow> False
      | Some win \<Rightarrow>
          PublicKeyCredential win \<noteq> GlobalUndefined \<and> PublicKeyCredential win = GlobalFunction)"

definition saveLastEmail :: "world \<Rightarrow> string \<Rightarrow> unit io" where
  "saveLastEmail w email =
     (case window w of
        None \<Rightarrow> io_return ()
      | Some win \<Rightarrow>
          io_catch (io_setItem w ''webauthn_last_email'' email)
            (\<lambda>error. io_emit (ConsoleError ''Failed to save last email:'' error)))"

definition registerWebAuthnCredential :: "world \<Rightarrow> string \<Rightarrow> string \<Rightarrow> jsval io" where
  "registerWebAuthnCredential w email username =
     (if \<not> isWebAuthnSupported w then
        io_return (JObj [(''success'', JBool False), (''error'', JStr msg_webauthn_unsupported)])
      else
        io_catch
          (io_bind (beginRegistration w email username) (\<lambda>beginResponse.
           io_bind (io_credentials_create w (JObj [(''publicKey'', publicKey beginResponse)]))
             (\<lambda>credential.
           case credential of
             None \<Rightarrow>
               io_return
                 (JObj [(''success'', JBool False),
                        (''error'', JStr msg_credential_creation_failed)])
           | Some cred \<Rightarrow>
               io_bind (finishRegistration w (sessionId beginResponse) cred) (\<lambda>result.
               io_bind (saveLastEmail w email) (\<lambda>saved.
               io_lift
                 (bindE (get_prop result ''token'') (\<lambda>result_token.
                  bindE (get_prop result ''user'') (\<lambda>result_user.
                  Inr (JObj [(''success'', JBool True), (''token'', result_token),
                             (''user'', result_user)])))))))))
          (\<lambda>error.
             io_bind (io_emit (ConsoleError ''WebAuthn registration failed:'' error)) (\<lambda>logged.
             io_return
               (JObj [(''success'', JBool False),
                      (''error'', JStr (if instanceof_Error error then message_of w error
                                        else msg_registration_error))]))))"

definition authenticateWebAuthn :: "world \<Rightarrow> string \<Rightarrow> jsval io" where
  "authenticateWebAuthn w email =
     (if \<not> isWebAuthnSupported w then
        io_return (JObj [(''success'', JBool False), (''error'', JStr msg_webauthn_unsupported)])
      else
        io_catch
          (io_bind (beginLogin w email) (\<lambda>beginResponse.
           io_bind (io_credentials_get w (JObj [(''publicKey'', publicKey beginResponse)]))
             (\<lambda>credential.
           case credential of
             None \<Rightarrow>
               io_return
                 (JObj [(''success'', JBool False), (''error'', JStr msg_authentication_failed)])
           | Some cred \<Rightarrow>
               io_bind (finishLogin w (sessionId beginResponse) cred) (\<lambda>result.
               io_bind (saveLastEmail w email) (\<lambda>saved.
               io_lift
                 (bindE (get_prop result ''token'') (\<lambda>result_token.
                  bindE (get_prop result ''user'') (\<lambda>result_user.
                  Inr (JObj [(''success'', JBool True), (''token'', result_token),
                             (''user'', result_user)])))))))))
          (\<lambda>error.
             io_bind (io_emit (ConsoleError ''WebAuthn authentication failed:'' error)) (\<lambda>logged.
             io_return
               (JObj [(''success'', JBool False),
                      (''error'', JStr (if instanceof_Error error then message_of w error
                                        else msg_authentication_error))]))))"

subsection \<open>Auxiliary functions of the proofs\<close>

text \<open>
  The 6-bit numbers that \<open>btoa\<close> writes for a list of byte values, without the
  characters and the padding; the lists of 6-bit numbers whose unused low bits are zero;
  and the two character replacements of the codec, each as one function.
\<close>

fun sextets :: "nat list \<Rightarrow> nat list" where
  "sextets (x # y # z # rest) =
     x div 4 # ((x mod 4) * 16 + y div 16) # ((y mod 16) * 4 + z div 64) # z mod 64 # sextets rest"
| "sextets [x, y] = [x div 4, (x mod 4) * 16 + y div 16, (y mod 16) * 4]"
| "sextets [x] = [x div 4, (x mod 4) * 16]"
| "sextets [] = []"

fun canonical :: "nat list \<Rightarrow> bool" where
  "canonical (p # q # r # s # rest) = canonical rest"
| "canonical [p, q, r] = (r mod 4 = 0)"
| "canonical [p, q] = (q mod 16 = 0)"
| "canonical [p] = False"
| "canonical [] = True"

definition to_urlsafe :: "char \<Rightarrow> char" where
  "to_urlsafe c = (if c = CHR ''+'' then CHR ''-'' else if c = CHR ''/'' then CHR ''_'' else c)"

definition from_urlsafe :: "char \<Rightarrow> char" where
  "from_urlsafe c = (if c = CHR ''-'' then CHR ''+'' else if c = CHR ''_'' then CHR ''/'' else c)"

subsection \<open>What the decoding of options is to achieve\<close>





subsection \<open>The shapes of results and events\<close>

text \<open>
  \<^verbatim>\<open>{success: false, error: m}\<close> and \<^verbatim>\<open>{success: true, token: t, user: u}\<close>, the two
  results of a ceremony.
\<close>

abbreviation failure :: "string \<Rightarrow> jsval" where
  "failure m \<equiv> JObj [(''success'', JBool False), (''error'', JStr m)]"

abbreviation succeeded :: "jsval \<Rightarrow> jsval \<Rightarrow> jsval" where
  "succeeded t u \<equiv> JObj [(''success'', JBool True), (''token'', t), (''user'', u)]"


subsection \<open>Example payloads and hosts\<close>

text \<open>Concrete inputs, at which the theorems below are instantiated.\<close>

definition example_creation_options :: jsval where
  "example_creation_options =
     JObj [(''challenge'', JStr ''AQID''),
           (''rp'', JObj [(''name'', JStr ''insect'')]),
           (''user'', JObj [(''id'', JStr ''BA''), (''name'', JStr ''alice'')]),
           (''excludeCredentials'',
              JArr [JObj [(''type'', JStr ''public-key''), (''id'', JStr ''BQY'')]])]"

definition example_request_options :: jsval where
  "example_request_options =
     JObj [(''challenge'', JStr ''AQID''),
           (''timeout'', JNum True ''60000''),
           (''allowCredentials'',
              JArr [JObj [(''type'', JStr ''public-key''), (''id'', JStr ''BQY'')]])]"

definition example_creation_options_decoded :: jsval where
  "example_creation_options_decoded =
     JObj [(''challenge'', JBuf [1, 2, 3]),
           (''rp'', JObj [(''name'', JStr ''insect'')]),
           (''user'', JObj [(''id'', JBuf [4]), (''name'', JStr ''alice'')]),
           (''excludeCredentials'',
              JArr [JObj [(''type'', JStr ''public-key''), (''id'', JBuf [5, 6])]])]"

definition example_request_options_decoded :: jsval where
  "example_request_options_decoded =
     JObj [(''challenge'', JBuf [1, 2, 3]),
           (''timeout'', JNum True ''60000''),
           (''allowCredentials'',
              JArr [JObj [(''type'', JStr ''public-key''), (''id'', JBuf [5, 6])]])]"

definition example_begin_envelope :: "jsval \<Rightarrow> jsval" where
  "example_begin_envelope options =
     JObj [(''success'', JBool True),
           (''data'', JObj [(''publicKey'', options), (''sessionId'', JStr ''s-1'')])]"

definition example_finish_envelope :: jsval where
  "example_finish_envelope =
     JObj [(''success'', JBool True), (''data'', JObj [(''token'', JStr ''jwt'')])]"

definition example_attestation :: "attestation_response public_key_credential" where
  "example_attestation =
     \<lparr>credential_id = ''AQI'', rawId = [1, 2], credential_type = ''public-key'',
      response = \<lparr>attestationObject = [3], clientDataJSON = [4, 5, 6]\<rparr>\<rparr>"

definition example_assertion :: "u8 list option \<Rightarrow> assertion_response public_key_credential" where
  "example_assertion handle =
     \<lparr>credential_id = ''AQI'', rawId = [1, 2], credential_type = ''public-key'',
      response = \<lparr>authenticatorData = [3], assertion_clientDataJSON = [4, 5, 6],
                  signature = [7], userHandle = handle\<rparr>\<rparr>"

text \<open>
  A host that answers every begin request with \<open>begin\<close> and every finish request with
  \<open>finish\<close>, whose platform returns the example credentials, and whose storage answers
  a write with \<open>write\<close>.
\<close>

definition example_world :: "fetch_outcome \<Rightarrow> fetch_outcome \<Rightarrow> thrown option \<Rightarrow> world" where
  "example_world begin finish write =
     \<lparr>window = Some \<lparr>PublicKeyCredential = GlobalFunction\<rparr>,
      EXPO_PUBLIC_API_URL = None,
      fetch = (\<lambda>url body.
        if url = ''http://localhost:8080/api/v1/auth/register/begin'' \<or>
           url = ''http://localhost:8080/api/v1/auth/login/begin''
        then begin else finish),
      credentials_create = (\<lambda>options. CredentialResolves (Some example_attestation)),
      credentials_get = (\<lambda>options. CredentialResolves (Some (example_assertion None))),
      localStorage_setItem = (\<lambda>k v. write),
      type_error_message = (\<lambda>site. ''TypeError''),
      invalid_character_message = ''InvalidCharacterError''\<rparr>"

text \<open>
  A host where a registration, and one where a login, succeeds in every step up to the
  write to the storage.
\<close>

definition example_registration_world :: "thrown option \<Rightarrow> world" where
  "example_registration_world write =
     example_world
       (FetchResolves True (JsonResolves (example_begin_envelope example_creation_options)))
       (FetchResolves True (JsonResolves example_finish_envelope)) write"

definition example_login_world :: "thrown option \<Rightarrow> world" where
  "example_login_world write =
     example_world
       (FetchResolves True (JsonResolves (example_begin_envelope example_request_options)))
       (FetchResolves True (JsonResolves example_finish_envelope)) write"

section \<open>Basic facts\<close>

lemma bindE_Inr: "bindE m f = Inr y \<longleftrightarrow> (\<exists>x. m = Inr x \<and> f x = Inr y)"
  by (cases m) (simp_all add: bindE_def)

lemma bindE_Inl: "bindE m f = Inl e \<longleftrightarrow> m = Inl e \<or> (\<exists>x. m = Inr x \<and> f x = Inl e)"
  by (cases m) (simp_all add: bindE_def)

section \<open>The codec is a two-sided inverse\<close>

lemma index_of_nth: "distinct xs \<Longrightarrow> n < length xs \<Longrightarrow> index_of xs (xs ! n) = n"
proof (induction xs arbitrary: n)
  case Nil
  then show ?case by simp
next
  case (Cons x xs)
  then show ?case by (cases n) auto
qed

lemma nth_index_of: "c \<in> set xs \<Longrightarrow> index_of xs c < length xs \<and> xs ! index_of xs c = c"
  by (induction xs) auto

lemma base64_table_length: "length base64_table = 64"
  by (simp add: base64_table_def)

lemma base64_table_distinct: "distinct base64_table"
  by code_simp

lemma dec6_enc6: "n < 64 \<Longrightarrow> dec6 (enc6 n) = n"
  by (simp add: dec6_def enc6_def index_of_nth base64_table_distinct base64_table_length)

lemma enc6_dec6: "c \<in> set base64_table \<Longrightarrow> enc6 (dec6 c) = c"
  by (simp add: dec6_def enc6_def nth_index_of)

lemma dec6_less: "c \<in> set base64_table \<Longrightarrow> dec6 c < 64"
  using nth_index_of [of c base64_table] by (simp add: dec6_def base64_table_length)

lemma enc6_in_table: "n < 64 \<Longrightarrow> enc6 n \<in> set base64_table"
  by (simp add: enc6_def base64_table_length)

lemma table_chars_all:
  "\<forall>c\<in>set base64_table.
     c \<noteq> CHR ''='' \<and> c \<noteq> CHR ''-'' \<and> c \<noteq> CHR ''_'' \<and> \<not> ascii_whitespace c"
  by code_simp

lemma table_chars:
  "c \<in> set base64_table \<Longrightarrow>
     c \<noteq> CHR ''='' \<and> c \<noteq> CHR ''-'' \<and> c \<noteq> CHR ''_'' \<and> \<not> ascii_whitespace c"
  using table_chars_all by blast

lemma btoa_sextets:
  "btoa s = map enc6 (sextets (map of_char s)) @ replicate ((3 - length s mod 3) mod 3) (CHR ''='')"
proof (induction s rule: btoa.induct)
  case (1 a b c rest)
  have "length (a # b # c # rest) mod 3 = length rest mod 3" by simp
  with 1 show ?case by (simp add: Let_def)
qed (simp_all add: Let_def numeral_2_eq_2)

lemma sextets_less: "\<forall>x\<in>set xs. x < 256 \<Longrightarrow> \<forall>s\<in>set (sextets xs). s < 64"
  by (induction xs rule: sextets.induct) auto

lemma sextets_length_mod:
  "length (sextets xs) mod 4 = (if length xs mod 3 = 0 then 0 else length xs mod 3 + 1)"
proof (induction xs rule: sextets.induct)
  case (1 x y z rest)
  have "length (x # y # z # rest) mod 3 = length rest mod 3" by simp
  with 1 show ?case by simp
qed simp_all

lemma regroup_first: "(y::nat) < 256 \<Longrightarrow> x div 4 * 4 + (x mod 4 * 16 + y div 16) div 16 = x"
proof -
  assume "y < 256"
  then have "y div 16 < 16" by simp
  then have "(x mod 4 * 16 + y div 16) div 16 = x mod 4" by simp
  then show ?thesis by simp
qed

lemma regroup_second:
  "(y::nat) < 256 \<Longrightarrow> z < 256 \<Longrightarrow>
     (x mod 4 * 16 + y div 16) mod 16 * 16 + (y mod 16 * 4 + z div 64) div 4 = y"
proof -
  assume "y < 256" "z < 256"
  then have a: "y div 16 < 16" and b: "z div 64 < 4" by simp_all
  from a have "(x mod 4 * 16 + y div 16) mod 16 = y div 16" by simp
  moreover from b have "(y mod 16 * 4 + z div 64) div 4 = y mod 16" by simp
  ultimately show ?thesis by simp
qed

lemma regroup_third: "(z::nat) < 256 \<Longrightarrow> (y mod 16 * 4 + z div 64) mod 4 * 64 + z mod 64 = z"
proof -
  assume "z < 256"
  then have b: "z div 64 < 4" by simp
  then have "(y mod 16 * 4 + z div 64) mod 4 = z div 64" by simp
  then show ?thesis by simp
qed

lemma decode_sextets_sextets:
  "\<forall>x\<in>set xs. x < 256 \<Longrightarrow> decode_sextets (sextets xs) = map char_of xs"
proof (induction xs rule: sextets.induct)
  case (1 x y z rest)
  then have y: "y < 256" and z: "z < 256" and rest: "\<forall>x\<in>set rest. x < 256" by simp_all
  have "decode_sextets (sextets (x # y # z # rest)) =
          char_of x # char_of y # char_of z # decode_sextets (sextets rest)"
    by (simp only: sextets.simps decode_sextets.simps regroup_first [OF y]
          regroup_second [OF y z] regroup_third [OF z])
  with 1(1) rest show ?case by simp
next
  case (2 x y)
  then have y: "y < 256" by simp
  have "decode_sextets (sextets [x, y]) =
          [char_of (x div 4 * 4 + (x mod 4 * 16 + y div 16) div 16),
           char_of ((x mod 4 * 16 + y div 16) mod 16 * 16 + (y mod 16 * 4 + 0 div 64) div 4)]"
    by simp
  also have "\<dots> = [char_of x, char_of y]"
    by (simp only: regroup_first [OF y] regroup_second [OF y, of 0])
  finally show ?case by simp
next
  case (3 x)
  have "decode_sextets (sextets [x]) = [char_of (x div 4 * 4 + (x mod 4 * 16 + 0 div 16) div 16)]"
    by simp
  also have "\<dots> = [char_of x]"
    by (simp only: regroup_first [of 0])
  finally show ?case by simp
qed simp

lemma replace_all_char: "replace_all c [d] s = map (\<lambda>x. if x = c then d else x) s"
  by (induction s) (simp_all add: replace_all_def)

lemma replace_all_absent: "c \<notin> set s \<Longrightarrow> replace_all c r s = s"
  by (induction s) (auto simp add: replace_all_def)

lemma replace_all_append: "replace_all c r (s @ t) = replace_all c r s @ replace_all c r t"
  by (simp add: replace_all_def)

lemma replace_all_erase: "replace_all c [] (replicate k c) = []"
  by (induction k) (simp_all add: replace_all_def)

lemma to_urlsafe_replace:
  "replace_all (CHR ''/'') ''_'' (replace_all (CHR ''+'') ''-'' s) = map to_urlsafe s"
  by (induction s) (simp_all add: replace_all_char to_urlsafe_def)

lemma from_urlsafe_replace:
  "replace_all (CHR ''_'') ''/'' (replace_all (CHR ''-'') ''+'' s) = map from_urlsafe s"
  by (induction s) (simp_all add: replace_all_char from_urlsafe_def)

lemma from_to_urlsafe: "c \<in> set base64_table \<Longrightarrow> from_urlsafe (to_urlsafe c) = c"
  using table_chars [of c] by (simp add: from_urlsafe_def to_urlsafe_def)

lemma to_urlsafe_not_pad: "c \<in> set base64_table \<Longrightarrow> to_urlsafe c \<noteq> CHR ''=''"
  using table_chars [of c] by (simp add: to_urlsafe_def)

lemma unat_u8_less: "unat (b :: u8) < 256"
proof -
  have "unat b < 2 ^ LENGTH(8)" by (rule unsigned_less)
  then show ?thesis by simp
qed

lemma of_char_fromCharCode: "of_char (fromCharCode b) = unat b"
  by (simp add: fromCharCode_def unat_u8_less)

lemma charCodeAt_fromCharCode: "charCodeAt_u8 (fromCharCode b) = b"
  by (simp add: charCodeAt_u8_def of_char_fromCharCode)

lemma fromCharCode_charCodeAt: "fromCharCode (charCodeAt_u8 c) = c"
proof -
  have "(of_char c :: nat) < 256" by simp
  then have "unat (word_of_nat (of_char c) :: u8) = of_char c"
    by (simp add: unat_of_nat)
  then show ?thesis by (simp add: fromCharCode_def charCodeAt_u8_def)
qed

lemma bufferToBase64URL_sextets:
  "bufferToBase64URL b = map to_urlsafe (map enc6 (sextets (map unat b)))"
proof -
  let ?X = "sextets (map unat b)"
  let ?k = "(3 - length b mod 3) mod 3"
  have less: "\<forall>s\<in>set ?X. s < 64"
    by (rule sextets_less) (simp add: unat_u8_less)
  have bt: "btoa (map fromCharCode b) = map enc6 ?X @ replicate ?k (CHR ''='')"
    by (simp add: btoa_sextets o_def of_char_fromCharCode)
  have pad: "map to_urlsafe (replicate ?k (CHR ''='')) = replicate ?k (CHR ''='')"
    by (simp add: to_urlsafe_def)
  have "\<forall>c\<in>set (map to_urlsafe (map enc6 ?X)). c \<noteq> CHR ''=''"
    using less by (simp add: to_urlsafe_not_pad enc6_in_table)
  then have "CHR ''='' \<notin> set (map to_urlsafe (map enc6 ?X))"
    by blast
  then have "replace_all (CHR ''='') [] (map to_urlsafe (map enc6 ?X)) =
               map to_urlsafe (map enc6 ?X)"
    by (rule replace_all_absent)
  then show ?thesis
    unfolding bufferToBase64URL_def Let_def to_urlsafe_replace bt
    by (simp only: map_append pad replace_all_append replace_all_erase append_Nil2)
qed

lemma strip_padding_appended:
  assumes "CHR ''='' \<notin> set d" and "length d mod 4 \<noteq> 1"
  shows "strip_padding (d @ replicate ((4 - length d mod 4) mod 4) (CHR ''='')) = d"
proof -
  consider "length d mod 4 = 0" | "length d mod 4 = 2" | "length d mod 4 = 3"
    using assms(2) by linarith
  then show ?thesis
  proof cases
    case 1
    show ?thesis
    proof (cases "d = []")
      case True
      then show ?thesis by (simp add: strip_padding_def)
    next
      case False
      then have "last d \<noteq> CHR ''=''" using assms(1) last_in_set by metis
      with 1 False show ?thesis by (simp add: strip_padding_def)
    qed
  next
    case 2
    then have len: "length (d @ ''=='') mod 4 = 0" by (simp add: mod_Suc)
    have "strip_padding (d @ ''=='') = d"
      unfolding strip_padding_def using len by (simp add: butlast_append)
    with 2 show ?thesis by (simp add: numeral_2_eq_2)
  next
    case 3
    then have len: "length (d @ ''='') mod 4 = 0" by (simp add: mod_Suc)
    have "strip_padding (d @ ''='') = d"
    proof (cases "d = []")
      case True
      with 3 show ?thesis by simp
    next
      case False
      then have "last d \<noteq> CHR ''=''" using assms(1) last_in_set by metis
      with len False show ?thesis
        unfolding strip_padding_def by (simp add: butlast_append)
    qed
    with 3 show ?thesis by simp
  qed
qed

lemma atob_padded:
  assumes "\<forall>c\<in>set d. c \<in> set base64_table" and "length d mod 4 \<noteq> 1"
  shows "atob (d @ replicate ((4 - length d mod 4) mod 4) (CHR ''='')) =
           Inr (decode_sextets (map dec6 d))"
proof -
  let ?p = "d @ replicate ((4 - length d mod 4) mod 4) (CHR ''='')"
  have "\<not> ascii_whitespace (CHR ''='')" by (simp add: ascii_whitespace_def)
  then have "\<forall>c\<in>set ?p. \<not> ascii_whitespace c"
    using assms(1) by (simp add: table_chars ball_Un)
  then have f: "filter (\<lambda>c. \<not> ascii_whitespace c) ?p = ?p"
    by (simp only: filter_True)
  have "\<forall>c\<in>set d. c \<noteq> CHR ''=''" using assms(1) by (simp add: table_chars)
  then have "CHR ''='' \<notin> set d" by blast
  then have s: "strip_padding ?p = d" using assms(2) by (rule strip_padding_appended)
  have "\<not> list_ex (\<lambda>c. c \<notin> set base64_table) d"
    using assms(1) by (simp add: list_ex_iff)
  then show ?thesis
    unfolding atob_def Let_def f s using assms(2) by simp
qed

lemma decode_encode: "base64URLToBuffer (bufferToBase64URL b) = Inr b"
proof -
  let ?X = "sextets (map unat b)"
  let ?d = "map enc6 ?X"
  have less: "\<forall>s\<in>set ?X. s < 64"
    by (rule sextets_less) (simp add: unat_u8_less)
  then have tab: "\<forall>c\<in>set ?d. c \<in> set base64_table"
    by (simp add: enc6_in_table)
  then have roundtrip: "map from_urlsafe (map to_urlsafe ?d) = ?d"
    by (simp add: from_to_urlsafe)
  have len: "length ?d mod 4 \<noteq> 1"
    by (simp add: sextets_length_mod)
  have dec: "map dec6 ?d = ?X"
    using less by (simp add: dec6_enc6 map_idI)
  have bytes: "map charCodeAt_u8 (map char_of (map unat b)) = b"
    using charCodeAt_fromCharCode by (simp add: fromCharCode_def map_idI)
  have "decode_sextets ?X = map char_of (map unat b)"
    by (rule decode_sextets_sextets) (simp add: unat_u8_less)
  then show ?thesis
    unfolding base64URLToBuffer_def Let_def bufferToBase64URL_sextets from_urlsafe_replace roundtrip
      padEnd_def
    using atob_padded [OF tab len] dec bytes by simp
qed

lemma url_table_chars:
  "\<forall>c\<in>set base64url_table.
     from_urlsafe c \<in> set base64_table \<and> to_urlsafe (from_urlsafe c) = c \<and>
     index_of base64url_table c = dec6 (from_urlsafe c)"
  by code_simp

lemma canonical_iff:
  "canonical X \<longleftrightarrow>
     length X mod 4 \<noteq> 1 \<and> (length X mod 4 = 2 \<longrightarrow> last X mod 16 = 0) \<and>
     (length X mod 4 = 3 \<longrightarrow> last X mod 4 = 0)"
proof (induction X rule: canonical.induct)
  case (1 p q r s rest)
  have "length (p # q # r # s # rest) mod 4 = length rest mod 4" by simp
  moreover have "rest \<noteq> [] \<Longrightarrow> last (p # q # r # s # rest) = last rest" by simp
  moreover have "rest = [] \<Longrightarrow> length rest mod 4 = 0" by simp
  ultimately show ?case using 1 by (cases "rest = []") simp_all
qed simp_all

lemma degroup_first: "p < 64 \<Longrightarrow> q < 64 \<Longrightarrow> (p * 4 + q div 16) mod 256 div 4 = (p::nat)"
proof -
  assume "p < 64" "q < 64"
  then have "q div 16 < 4" and "p * 4 + q div 16 < 256" by simp_all
  then show ?thesis by simp
qed

lemma degroup_second:
  "p < 64 \<Longrightarrow> q < 64 \<Longrightarrow> r < 64 \<Longrightarrow>
     (p * 4 + q div 16) mod 256 mod 4 * 16 + (q mod 16 * 16 + r div 4) mod 256 div 16 = (q::nat)"
proof -
  assume "p < 64" "q < 64" "r < 64"
  then have a: "q div 16 < 4" and b: "p * 4 + q div 16 < 256" and c: "r div 4 < 16"
    by simp_all
  from c have d: "q mod 16 * 16 + r div 4 < 256"
    using mod_less_divisor [of 16 q] by linarith
  from a b have "(p * 4 + q div 16) mod 256 mod 4 = q div 16" by simp
  moreover from c d have "(q mod 16 * 16 + r div 4) mod 256 div 16 = q mod 16" by simp
  ultimately show ?thesis by simp
qed

lemma degroup_third:
  "q < 64 \<Longrightarrow> r < 64 \<Longrightarrow> s < 64 \<Longrightarrow>
     (q mod 16 * 16 + r div 4) mod 256 mod 16 * 4 + (r mod 4 * 64 + s) mod 256 div 64 = (r::nat)"
proof -
  assume "q < 64" "r < 64" "s < 64"
  then have c: "r div 4 < 16" by simp
  from c have d: "q mod 16 * 16 + r div 4 < 256"
    using mod_less_divisor [of 16 q] by linarith
  have e: "r mod 4 * 64 + s < 256"
    using \<open>s < 64\<close> mod_less_divisor [of 4 r] by linarith
  from c d have "(q mod 16 * 16 + r div 4) mod 256 mod 16 = r div 4" by simp
  moreover from e \<open>s < 64\<close> have "(r mod 4 * 64 + s) mod 256 div 64 = r mod 4" by simp
  ultimately show ?thesis by simp
qed

lemma degroup_fourth: "r < 64 \<Longrightarrow> s < 64 \<Longrightarrow> (r mod 4 * 64 + s) mod 256 mod 64 = (s::nat)"
proof -
  assume "r < 64" "s < 64"
  have e: "r mod 4 * 64 + s < 256"
    using \<open>s < 64\<close> mod_less_divisor [of 4 r] by linarith
  with \<open>s < 64\<close> show ?thesis by simp
qed

lemma degroup_second_last:
  assumes "p < 64" and "q < 64" and "q mod 16 = 0"
  shows "(p * 4 + q div 16) mod 256 mod 4 * 16 = (q::nat)"
proof -
  from assms have a: "q div 16 < 4" and b: "p * 4 + q div 16 < 256" by simp_all
  from a b have "(p * 4 + q div 16) mod 256 mod 4 = q div 16" by simp
  moreover have "q div 16 * 16 = q" using assms(3) div_mult_mod_eq [of q 16] by simp
  ultimately show ?thesis by simp
qed

lemma degroup_third_last:
  assumes "q < 64" and "r < 64" and "r mod 4 = 0"
  shows "(q mod 16 * 16 + r div 4) mod 256 mod 16 * 4 = (r::nat)"
proof -
  from assms have c: "r div 4 < 16" by simp
  from c have d: "q mod 16 * 16 + r div 4 < 256"
    using mod_less_divisor [of 16 q] by linarith
  from c d have "(q mod 16 * 16 + r div 4) mod 256 mod 16 = r div 4" by simp
  moreover have "r div 4 * 4 = r" using assms(3) div_mult_mod_eq [of r 4] by simp
  ultimately show ?thesis by simp
qed

lemma sextets_decode_sextets:
  "canonical X \<Longrightarrow> \<forall>x\<in>set X. x < 64 \<Longrightarrow> sextets (map of_char (decode_sextets X)) = X"
proof (induction X rule: decode_sextets.induct)
  case (1 p q r s rest)
  then have p: "p < 64" and q: "q < 64" and r: "r < 64" and s: "s < 64" by simp_all
  have "sextets (map of_char (decode_sextets (p # q # r # s # rest))) =
          p # q # r # s # sextets (map of_char (decode_sextets rest))"
    by (simp only: decode_sextets.simps list.map sextets.simps of_char_of
          degroup_first [OF p q] degroup_second [OF p q r] degroup_third [OF q r s]
          degroup_fourth [OF r s])
  with 1 show ?case by simp
next
  case (2 p q r)
  then have p: "p < 64" and q: "q < 64" and r: "r < 64" and z: "r mod 4 = 0" by simp_all
  have "(q mod 16 * 16 + r div 4) mod 256 mod 16 * 4 = r"
    by (rule degroup_third_last [OF q r z])
  moreover have "sextets (map of_char (decode_sextets [p, q, r])) =
          [(p * 4 + q div 16) mod 256 div 4,
           (p * 4 + q div 16) mod 256 mod 4 * 16 + (q mod 16 * 16 + r div 4) mod 256 div 16,
           (q mod 16 * 16 + r div 4) mod 256 mod 16 * 4]"
    by (simp only: decode_sextets.simps list.map sextets.simps of_char_of)
  ultimately show ?case
    by (simp only: degroup_first [OF p q] degroup_second [OF p q r])
next
  case (3 p q)
  then have p: "p < 64" and q: "q < 64" and z: "q mod 16 = 0" by simp_all
  have "(p * 4 + q div 16) mod 256 mod 4 * 16 = q"
    by (rule degroup_second_last [OF p q z])
  moreover have "sextets (map of_char (decode_sextets [p, q])) =
          [(p * 4 + q div 16) mod 256 div 4, (p * 4 + q div 16) mod 256 mod 4 * 16]"
    by (simp only: decode_sextets.simps list.map sextets.simps of_char_of)
  ultimately show ?case
    by (simp only: degroup_first [OF p q])
qed simp_all

lemma encode_decode:
  assumes "wellformed_base64url t"
  shows "\<exists>b. base64URLToBuffer t = Inr b \<and> bufferToBase64URL b = t"
proof -
  let ?d = "map from_urlsafe t"
  let ?X = "map dec6 ?d"
  from assms have url: "\<forall>c\<in>set t. c \<in> set base64url_table"
    and len: "length t mod 4 \<noteq> 1"
    and l2: "length t mod 4 = 2 \<longrightarrow> index_of base64url_table (last t) mod 16 = 0"
    and l3: "length t mod 4 = 3 \<longrightarrow> index_of base64url_table (last t) mod 4 = 0"
    by (simp_all add: wellformed_base64url_def list_all_iff)
  have tab: "\<forall>c\<in>set ?d. c \<in> set base64_table"
    using url url_table_chars by simp
  have len': "length ?d mod 4 \<noteq> 1" using len by simp
  have less: "\<forall>x\<in>set ?X. x < 64" using tab by (simp add: dec6_less)
  have lastX: "t \<noteq> [] \<Longrightarrow> last ?X = index_of base64url_table (last t)"
    using url url_table_chars by (simp add: last_map)
  have "t \<noteq> []" if "length t mod 4 \<noteq> 0" using that by auto
  with l2 l3 len lastX have canon: "canonical ?X"
    by (auto simp add: canonical_iff)
  have dec: "base64URLToBuffer t = Inr (map charCodeAt_u8 (decode_sextets ?X))"
    unfolding base64URLToBuffer_def Let_def from_urlsafe_replace padEnd_def
    using atob_padded [OF tab len'] by simp
  have bin: "map fromCharCode (map charCodeAt_u8 (decode_sextets ?X)) = decode_sextets ?X"
    by (simp add: fromCharCode_charCodeAt map_idI)
  have sx: "sextets (map unat (map charCodeAt_u8 (decode_sextets ?X))) = ?X"
    using sextets_decode_sextets [OF canon less] of_char_fromCharCode [symmetric]
    by (simp add: fromCharCode_charCodeAt o_def)
  have e1: "map enc6 ?X = ?d" using tab by (simp add: enc6_dec6 map_idI)
  have e2: "map to_urlsafe ?d = t" using url url_table_chars by (simp add: map_idI)
  have "bufferToBase64URL (map charCodeAt_u8 (decode_sextets ?X)) = t"
    unfolding bufferToBase64URL_sextets sx e1 e2 by (rule refl)
  with dec show ?thesis by blast
qed

text \<open>
  The well-formed texts are exactly the texts that the encoder produces.
\<close>

lemma canonical_sextets: "canonical (sextets xs)"
  by (induction xs rule: sextets.induct) simp_all

lemma base64_table_to_urlsafe:
  "\<forall>c\<in>set base64_table.
     to_urlsafe c \<in> set base64url_table \<and> index_of base64url_table (to_urlsafe c) = dec6 c"
  by code_simp

lemma wellformed_bufferToBase64URL: "wellformed_base64url (bufferToBase64URL b)"
proof -
  let ?X = "sextets (map unat b)"
  let ?t = "map to_urlsafe (map enc6 ?X)"
  have less: "\<forall>s\<in>set ?X. s < 64"
    by (rule sextets_less) (simp add: unat_u8_less)
  have chars: "\<forall>c\<in>set ?t. c \<in> set base64url_table"
    using less base64_table_to_urlsafe by (simp add: enc6_in_table)
  have canon: "canonical ?X" by (rule canonical_sextets)
  have last_t: "index_of base64url_table (last ?t) = last ?X" if "?X \<noteq> []"
  proof -
    from that have "last ?X \<in> set ?X" by (rule last_in_set)
    with less have l: "last ?X < 64" by blast
    have "last ?t = to_urlsafe (enc6 (last ?X))" using that by (simp add: last_map)
    then show ?thesis
      using l base64_table_to_urlsafe by (simp add: enc6_in_table dec6_enc6)
  qed
  have nonempty: "?X \<noteq> []" if "length ?X mod 4 \<noteq> 0" using that by auto
  from canon have "length ?X mod 4 \<noteq> 1"
    and "length ?X mod 4 = 2 \<longrightarrow> last ?X mod 16 = 0"
    and "length ?X mod 4 = 3 \<longrightarrow> last ?X mod 4 = 0"
    by (simp_all add: canonical_iff)
  then have "wellformed_base64url ?t"
    unfolding wellformed_base64url_def list_all_iff
    using chars last_t nonempty by auto
  then show ?thesis by (simp only: bufferToBase64URL_sextets)
qed

lemma wellformed_iff_encoding: "wellformed_base64url t \<longleftrightarrow> (\<exists>b. t = bufferToBase64URL b)"
proof
  assume "wellformed_base64url t"
  then obtain b where "base64URLToBuffer t = Inr b" and "bufferToBase64URL b = t"
    using encode_decode by blast
  then show "\<exists>b. t = bufferToBase64URL b" by blast
next
  assume "\<exists>b. t = bufferToBase64URL b"
  then show "wellformed_base64url t" using wellformed_bufferToBase64URL by blast
qed

text \<open>
  The decoder is forgiving: a text whose last character carries a non-zero unused bit is
  decoded too, and encoding the result gives the canonical text, not the text decoded.
\<close>

lemma noncanonical_text_is_normalised:
  "base64URLToBuffer ''QR'' = Inr [0x41] \<and> bufferToBase64URL [0x41] = ''QQ''"
  by code_simp

text \<open>
  C1. \<open>bufferToBase64URL\<close> and \<open>base64URLToBuffer\<close> are inverse to each other: decoding
  the encoding of any byte sequence \<open>b\<close> (of any length, the empty one included) gives
  \<open>b\<close> back, and every well-formed padding-free URL-safe text \<open>t\<close> is decoded to bytes
  whose encoding is \<open>t\<close>.
\<close>

theorem codec_two_sided_inverse:
  "base64URLToBuffer (bufferToBase64URL b) = Inr b \<and>
   (wellformed_base64url t \<longrightarrow>
      (\<exists>b'. base64URLToBuffer t = Inr b' \<and> bufferToBase64URL b' = t))"
  using decode_encode [of b] encode_decode [of t] by blast

theorem codec_two_sided_inverse_witness:
  "base64URLToBuffer (bufferToBase64URL [0xFB, 0xFF]) = Inr [0xFB, 0xFF] \<and>
   wellformed_base64url ''-_8'' \<and>
   (\<exists>b'. base64URLToBuffer ''-_8'' = Inr b' \<and> bufferToBase64URL b' = ''-_8'')"
proof -
  have w: "wellformed_base64url ''-_8''"
    by code_simp
  with codec_two_sided_inverse [of "[0xFB, 0xFF]" "''-_8''"] show ?thesis by blast
qed

section \<open>Decoding options changes the designated fields only\<close>











text \<open>
  Two boundaries of the frame property. A payload without a list gets the list's key,
  with the value \<^verbatim>\<open>undefined\<close>; and a payload that lacks a designated text makes the
  function throw, so there is no result to compare.
\<close>

lemma decode_options_without_list:
  "decodeRequestOptions (JObj [(''challenge'', JStr ''AQID''), (''rpId'', JStr ''insect'')]) =
     Inr (JObj [(''challenge'', JBuf [1, 2, 3]), (''rpId'', JStr ''insect''),
                (''allowCredentials'', JUndefined)])"
  by code_simp

lemma decode_options_ill_typed:
  "decodeCreationOptions JUndefined = Inl (TypeError (ReadOfNullish ''challenge''))"
  "decodeCreationOptions (JObj [(''challenge'', JStr ''AQID'')]) =
     Inl (TypeError (ReadOfNullish ''id''))"
  "decodeRequestOptions (JObj [(''challenge'', JStr ''A'')]) = Inl InvalidCharacterError"
  by code_simp+


lemma example_options_decoded:
  "decodeCreationOptions example_creation_options = Inr example_creation_options_decoded"
  "decodeRequestOptions example_request_options = Inr example_request_options_decoded"
  by code_simp+


section \<open>The four calls and the two ceremonies, case by case\<close>

lemmas io_defs = io_return_def io_lift_def io_emit_def io_bind_def io_catch_def io_finally_def
  io_fetch_def io_credentials_create_def io_credentials_get_def io_setItem_def

lemma truthy_get_prop: "truthy v \<Longrightarrow> \<exists>x. get_prop v k = Inr x"
  by (cases v) simp_all

lemma truthy_js_or_object: "truthy (js_or v (JObj fs))"
  by (simp add: js_or_def)

text \<open>
  Each call arms the timer, sends one request and clears the timer, whatever comes of the
  request; it does not touch the storage.
\<close>

lemma beginRegistration_run:
  "\<exists>r. beginRegistration w email username s =
     (r, [SetTimeout REQUEST_TIMEOUT,
          Fetch (API_BASE_URL w @ ''/api/v1/auth/register/begin'')
            (stringify_object [(''email'', JStr email), (''username'', JStr username)]),
          ClearTimeout], s)"
  by (cases "fetch w (API_BASE_URL w @ ''/api/v1/auth/register/begin'')
            (stringify_object [(''email'', JStr email), (''username'', JStr username)])")
     (simp_all add: beginRegistration_def io_defs Let_def)

lemma beginLogin_run:
  "\<exists>r. beginLogin w email s =
     (r, [SetTimeout REQUEST_TIMEOUT,
          Fetch (API_BASE_URL w @ ''/api/v1/auth/login/begin'')
            (stringify_object [(''email'', JStr email)]),
          ClearTimeout], s)"
  by (cases "fetch w (API_BASE_URL w @ ''/api/v1/auth/login/begin'')
            (stringify_object [(''email'', JStr email)])")
     (simp_all add: beginLogin_def io_defs Let_def)

lemma finishRegistration_run:
  "\<exists>r. finishRegistration w session_id credential s =
     (r, [SetTimeout REQUEST_TIMEOUT,
          Fetch (API_BASE_URL w @ ''/api/v1/auth/register/finish'')
            (stringify_object (finishRegistration_requestData session_id credential)),
          ClearTimeout], s)"
  by (cases "fetch w (API_BASE_URL w @ ''/api/v1/auth/register/finish'')
            (stringify_object (finishRegistration_requestData session_id credential))")
     (simp_all add: finishRegistration_def io_defs Let_def)

lemma finishLogin_run:
  "\<exists>r. finishLogin w session_id credential s =
     (r, [SetTimeout REQUEST_TIMEOUT,
          Fetch (API_BASE_URL w @ ''/api/v1/auth/login/finish'')
            (stringify_object (finishLogin_requestData session_id credential)),
          ClearTimeout], s)"
  by (cases "fetch w (API_BASE_URL w @ ''/api/v1/auth/login/finish'')
            (stringify_object (finishLogin_requestData session_id credential))")
     (simp_all add: finishLogin_def io_defs Let_def)









text \<open>What a finish call returns is truthy: \<^verbatim>\<open>data.data || {}\<close>.\<close>

lemma finishRegistration_truthy:
  assumes "fst (finishRegistration w session_id credential s) = Inr result"
  shows "truthy result"
proof (cases "fetch w (API_BASE_URL w @ ''/api/v1/auth/register/finish'')
            (stringify_object (finishRegistration_requestData session_id credential))")
  case (FetchRejects e)
  with assms show ?thesis by (simp add: finishRegistration_def io_defs Let_def)
next
  case (FetchResolves ok json)
  with assms have "\<exists>d. result = js_or d (JObj [])"
    by (auto simp add: finishRegistration_def io_defs Let_def bindE_Inr split: if_splits)
  then show ?thesis using truthy_js_or_object by blast
qed

lemma finishLogin_truthy:
  assumes "fst (finishLogin w session_id credential s) = Inr result"
  shows "truthy result"
proof (cases "fetch w (API_BASE_URL w @ ''/api/v1/auth/login/finish'')
            (stringify_object (finishLogin_requestData session_id credential))")
  case (FetchRejects e)
  with assms show ?thesis by (simp add: finishLogin_def io_defs Let_def)
next
  case (FetchResolves ok json)
  with assms have "\<exists>d. result = js_or d (JObj [])"
    by (auto simp add: finishLogin_def io_defs Let_def bindE_Inr split: if_splits)
  then show ?thesis using truthy_js_or_object by blast
qed

lemma saveLastEmail_run:
  "window w \<noteq> None \<Longrightarrow>
   saveLastEmail w email s =
     (case localStorage_setItem w ''webauthn_last_email'' email of
        None \<Rightarrow>
          (Inr (), [SetItem ''webauthn_last_email'' email], s(''webauthn_last_email'' \<mapsto> email))
      | Some e \<Rightarrow>
          (Inr (), [SetItem ''webauthn_last_email'' email,
                    ConsoleError ''Failed to save last email:'' e], s))"
  by (auto simp add: saveLastEmail_def io_defs split: option.split)

lemma supported_window: "isWebAuthnSupported w \<Longrightarrow> window w \<noteq> None"
  by (auto simp add: isWebAuthnSupported_def split: option.splits)

text \<open>The ceremonies, by the outcome of their steps.\<close>

lemma register_begin_throws:
  assumes "isWebAuthnSupported w" and "beginRegistration w email username s = (Inl e, evs, s1)"
  shows "registerWebAuthnCredential w email username s =
           (Inr (failure (if instanceof_Error e then message_of w e else msg_registration_error)),
            evs @ [ConsoleError ''WebAuthn registration failed:'' e], s1)"
  using assms by (simp add: registerWebAuthnCredential_def io_defs)

lemma register_platform_throws:
  assumes "isWebAuthnSupported w" and "beginRegistration w email username s = (Inr b, evs, s1)"
    and "credentials_create w (JObj [(''publicKey'', publicKey b)]) = CredentialRejects e"
  shows "registerWebAuthnCredential w email username s =
           (Inr (failure (if instanceof_Error e then message_of w e else msg_registration_error)),
            evs @ [CredentialsCreate (JObj [(''publicKey'', publicKey b)]),
                   ConsoleError ''WebAuthn registration failed:'' e], s1)"
  using assms by (simp add: registerWebAuthnCredential_def io_defs)

lemma register_platform_null:
  assumes "isWebAuthnSupported w" and "beginRegistration w email username s = (Inr b, evs, s1)"
    and "credentials_create w (JObj [(''publicKey'', publicKey b)]) = CredentialResolves None"
  shows "registerWebAuthnCredential w email username s =
           (Inr (failure msg_credential_creation_failed),
            evs @ [CredentialsCreate (JObj [(''publicKey'', publicKey b)])], s1)"
  using assms by (simp add: registerWebAuthnCredential_def io_defs)

lemma register_finish_throws:
  assumes "isWebAuthnSupported w" and "beginRegistration w email username s = (Inr b, evs, s1)"
    and "credentials_create w (JObj [(''publicKey'', publicKey b)]) = CredentialResolves (Some cred)"
    and "finishRegistration w (sessionId b) cred s1 = (Inl e, evs2, s2)"
  shows "registerWebAuthnCredential w email username s =
           (Inr (failure (if instanceof_Error e then message_of w e else msg_registration_error)),
            evs @ CredentialsCreate (JObj [(''publicKey'', publicKey b)]) # evs2 @
              [ConsoleError ''WebAuthn registration failed:'' e], s2)"
  using assms by (simp add: registerWebAuthnCredential_def io_defs)

lemma register_finish_returns:
  assumes "isWebAuthnSupported w" and "beginRegistration w email username s = (Inr b, evs, s1)"
    and "credentials_create w (JObj [(''publicKey'', publicKey b)]) = CredentialResolves (Some cred)"
    and "finishRegistration w (sessionId b) cred s1 = (Inr result, evs2, s2)"
    and "saveLastEmail w email s2 = (Inr (), evs3, s3)"
  shows "\<exists>t u. get_prop result ''token'' = Inr t \<and> get_prop result ''user'' = Inr u \<and>
           registerWebAuthnCredential w email username s =
             (Inr (succeeded t u),
              evs @ CredentialsCreate (JObj [(''publicKey'', publicKey b)]) # evs2 @ evs3, s3)"
proof -
  from assms(4) have "fst (finishRegistration w (sessionId b) cred s1) = Inr result" by simp
  then have "truthy result" by (rule finishRegistration_truthy)
  then obtain t u where "get_prop result ''token'' = Inr t" and "get_prop result ''user'' = Inr u"
    using truthy_get_prop by blast
  with assms show ?thesis
    by (simp add: registerWebAuthnCredential_def io_defs bindE_def)
qed

lemma authenticate_begin_throws:
  assumes "isWebAuthnSupported w" and "beginLogin w email s = (Inl e, evs, s1)"
  shows "authenticateWebAuthn w email s =
           (Inr (failure (if instanceof_Error e then message_of w e else msg_authentication_error)),
            evs @ [ConsoleError ''WebAuthn authentication failed:'' e], s1)"
  using assms by (simp add: authenticateWebAuthn_def io_defs)

lemma authenticate_platform_throws:
  assumes "isWebAuthnSupported w" and "beginLogin w email s = (Inr b, evs, s1)"
    and "credentials_get w (JObj [(''publicKey'', publicKey b)]) = CredentialRejects e"
  shows "authenticateWebAuthn w email s =
           (Inr (failure (if instanceof_Error e then message_of w e else msg_authentication_error)),
            evs @ [CredentialsGet (JObj [(''publicKey'', publicKey b)]),
                   ConsoleError ''WebAuthn authentication failed:'' e], s1)"
  using assms by (simp add: authenticateWebAuthn_def io_defs)

lemma authenticate_platform_null:
  assumes "isWebAuthnSupported w" and "beginLogin w email s = (Inr b, evs, s1)"
    and "credentials_get w (JObj [(''publicKey'', publicKey b)]) = CredentialResolves None"
  shows "authenticateWebAuthn w email s =
           (Inr (failure msg_authentication_failed),
            evs @ [CredentialsGet (JObj [(''publicKey'', publicKey b)])], s1)"
  using assms by (simp add: authenticateWebAuthn_def io_defs)

lemma authenticate_finish_throws:
  assumes "isWebAuthnSupported w" and "beginLogin w email s = (Inr b, evs, s1)"
    and "credentials_get w (JObj [(''publicKey'', publicKey b)]) = CredentialResolves (Some cred)"
    and "finishLogin w (sessionId b) cred s1 = (Inl e, evs2, s2)"
  shows "authenticateWebAuthn w email s =
           (Inr (failure (if instanceof_Error e then message_of w e else msg_authentication_error)),
            evs @ CredentialsGet (JObj [(''publicKey'', publicKey b)]) # evs2 @
              [ConsoleError ''WebAuthn authentication failed:'' e], s2)"
  using assms by (simp add: authenticateWebAuthn_def io_defs)

lemma authenticate_finish_returns:
  assumes "isWebAuthnSupported w" and "beginLogin w email s = (Inr b, evs, s1)"
    and "credentials_get w (JObj [(''publicKey'', publicKey b)]) = CredentialResolves (Some cred)"
    and "finishLogin w (sessionId b) cred s1 = (Inr result, evs2, s2)"
    and "saveLastEmail w email s2 = (Inr (), evs3, s3)"
  shows "\<exists>t u. get_prop result ''token'' = Inr t \<and> get_prop result ''user'' = Inr u \<and>
           authenticateWebAuthn w email s =
             (Inr (succeeded t u),
              evs @ CredentialsGet (JObj [(''publicKey'', publicKey b)]) # evs2 @ evs3, s3)"
proof -
  from assms(4) have "fst (finishLogin w (sessionId b) cred s1) = Inr result" by simp
  then have "truthy result" by (rule finishLogin_truthy)
  then obtain t u where "get_prop result ''token'' = Inr t" and "get_prop result ''user'' = Inr u"
    using truthy_get_prop by blast
  with assms show ?thesis
    by (simp add: authenticateWebAuthn_def io_defs bindE_def)
qed

text \<open>The calls on an envelope that says \<^verbatim>\<open>success\<close>.\<close>

lemma beginRegistration_success:
  assumes "fetch w (API_BASE_URL w @ ''/api/v1/auth/register/begin'')
             (stringify_object [(''email'', JStr email), (''username'', JStr username)]) =
           FetchResolves True (JsonResolves (JObj envelope))"
    and "truthy (prop_of envelope ''success'')" and "truthy (prop_of envelope ''data'')"
    and "get_prop (prop_of envelope ''data'') ''publicKey'' = Inr data_publicKey"
    and "decodeCreationOptions data_publicKey = Inr options"
    and "get_prop (prop_of envelope ''data'') ''sessionId'' = Inr data_sessionId"
  shows "fst (beginRegistration w email username s) =
           Inr \<lparr>publicKey = options, sessionId = data_sessionId\<rparr>"
  using assms
  by (simp add: beginRegistration_def io_defs Let_def await_json_def bindE_def)

lemma beginLogin_success:
  assumes "fetch w (API_BASE_URL w @ ''/api/v1/auth/login/begin'')
             (stringify_object [(''email'', JStr email)]) =
           FetchResolves True (JsonResolves (JObj envelope))"
    and "truthy (prop_of envelope ''success'')" and "truthy (prop_of envelope ''data'')"
    and "get_prop (prop_of envelope ''data'') ''publicKey'' = Inr data_publicKey"
    and "decodeRequestOptions data_publicKey = Inr options"
    and "get_prop (prop_of envelope ''data'') ''sessionId'' = Inr data_sessionId"
  shows "fst (beginLogin w email s) = Inr \<lparr>publicKey = options, sessionId = data_sessionId\<rparr>"
  using assms
  by (simp add: beginLogin_def io_defs Let_def await_json_def bindE_def)

lemma finishRegistration_success:
  assumes "fetch w (API_BASE_URL w @ ''/api/v1/auth/register/finish'')
             (stringify_object (finishRegistration_requestData session_id credential)) =
           FetchResolves True (JsonResolves (JObj envelope))"
    and "truthy (prop_of envelope ''success'')"
  shows "fst (finishRegistration w session_id credential s) =
           Inr (js_or (prop_of envelope ''data'') (JObj []))"
  using assms
  by (simp add: finishRegistration_def io_defs Let_def await_json_def bindE_def)

lemma finishLogin_success:
  assumes "fetch w (API_BASE_URL w @ ''/api/v1/auth/login/finish'')
             (stringify_object (finishLogin_requestData session_id credential)) =
           FetchResolves True (JsonResolves (JObj envelope))"
    and "truthy (prop_of envelope ''success'')"
  shows "fst (finishLogin w session_id credential s) =
           Inr (js_or (prop_of envelope ''data'') (JObj []))"
  using assms
  by (simp add: finishLogin_def io_defs Let_def await_json_def bindE_def)

text \<open>The example host.\<close>

lemma example_world_supported: "isWebAuthnSupported (example_world begin finish write)"
  by (simp add: isWebAuthnSupported_def example_world_def)

lemma example_world_fetch:
  "fetch (example_world begin finish write)
     (API_BASE_URL (example_world begin finish write) @ ''/api/v1/auth/register/begin'') body =
     begin"
  "fetch (example_world begin finish write)
     (API_BASE_URL (example_world begin finish write) @ ''/api/v1/auth/login/begin'') body =
     begin"
  "fetch (example_world begin finish write)
     (API_BASE_URL (example_world begin finish write) @ ''/api/v1/auth/register/finish'') body =
     finish"
  "fetch (example_world begin finish write)
     (API_BASE_URL (example_world begin finish write) @ ''/api/v1/auth/login/finish'') body =
     finish"
  by (simp_all add: example_world_def API_BASE_URL_def)

lemma example_world_platform:
  "credentials_create (example_world begin finish write) options =
     CredentialResolves (Some example_attestation)"
  "credentials_get (example_world begin finish write) options =
     CredentialResolves (Some (example_assertion None))"
  "localStorage_setItem (example_world begin finish write) k v = write"
  by (simp_all add: example_world_def)

lemma example_envelopes:
  "truthy (prop_of [(''success'', JBool True), (''data'', d)] ''success'')"
  "prop_of [(''success'', JBool True), (''data'', d)] ''data'' = d"
  "get_prop (JObj [(''publicKey'', options), (''sessionId'', sid)]) ''publicKey'' = Inr options"
  "get_prop (JObj [(''publicKey'', options), (''sessionId'', sid)]) ''sessionId'' = Inr sid"
  by (simp_all add: prop_of_def)

lemma example_registration_steps:
  "fst (beginRegistration (example_registration_world write) email username s) =
     Inr \<lparr>publicKey = example_creation_options_decoded, sessionId = JStr ''s-1''\<rparr>"
  "fst (finishRegistration (example_registration_world write) session_id credential s) =
     Inr (JObj [(''token'', JStr ''jwt'')])"
proof -
  show "fst (beginRegistration (example_registration_world write) email username s) =
     Inr \<lparr>publicKey = example_creation_options_decoded, sessionId = JStr ''s-1''\<rparr>"
    unfolding example_registration_world_def example_begin_envelope_def
    by (rule beginRegistration_success
          [OF example_world_fetch(1), where data_publicKey = example_creation_options])
      (simp_all add: example_envelopes example_options_decoded prop_of_def)
  have "fst (finishRegistration (example_registration_world write) session_id credential s) =
     Inr (js_or (prop_of [(''success'', JBool True), (''data'', JObj [(''token'', JStr ''jwt'')])]
                   ''data'') (JObj []))"
    unfolding example_registration_world_def example_finish_envelope_def
    by (rule finishRegistration_success [OF example_world_fetch(3)])
      (simp add: example_envelopes)
  then show "fst (finishRegistration (example_registration_world write) session_id credential s) =
     Inr (JObj [(''token'', JStr ''jwt'')])"
    by (simp add: example_envelopes js_or_def)
qed

lemma example_login_steps:
  "fst (beginLogin (example_login_world write) email s) =
     Inr \<lparr>publicKey = example_request_options_decoded, sessionId = JStr ''s-1''\<rparr>"
  "fst (finishLogin (example_login_world write) session_id credential s) =
     Inr (JObj [(''token'', JStr ''jwt'')])"
proof -
  show "fst (beginLogin (example_login_world write) email s) =
     Inr \<lparr>publicKey = example_request_options_decoded, sessionId = JStr ''s-1''\<rparr>"
    unfolding example_login_world_def example_begin_envelope_def
    by (rule beginLogin_success
          [OF example_world_fetch(2), where data_publicKey = example_request_options])
      (simp_all add: example_envelopes example_options_decoded prop_of_def)
  have "fst (finishLogin (example_login_world write) session_id credential s) =
     Inr (js_or (prop_of [(''success'', JBool True), (''data'', JObj [(''token'', JStr ''jwt'')])]
                   ''data'') (JObj []))"
    unfolding example_login_world_def example_finish_envelope_def
    by (rule finishLogin_success [OF example_world_fetch(4)])
      (simp add: example_envelopes)
  then show "fst (finishLogin (example_login_world write) session_id credential s) =
     Inr (JObj [(''token'', JStr ''jwt'')])"
    by (simp add: example_envelopes js_or_def)
qed

lemma example_worlds:
  "isWebAuthnSupported (example_registration_world write)"
  "isWebAuthnSupported (example_login_world write)"
  "credentials_create (example_registration_world write) options =
     CredentialResolves (Some example_attestation)"
  "credentials_get (example_login_world write) options =
     CredentialResolves (Some (example_assertion None))"
  "localStorage_setItem (example_registration_world write) k v = write"
  "localStorage_setItem (example_login_world write) k v = write"
  by (simp_all add: example_registration_world_def example_login_world_def
      example_world_supported example_world_platform)

section \<open>A failed begin step ends the ceremony\<close>





section \<open>Which message a failed call carries\<close>




section \<open>The ceremonies as a whole\<close>

text \<open>
  What a ceremony returns and leaves, by the outcomes of its steps, on a platform that
  supports WebAuthn. \<open>evs\<close> stands for the effects up to the write to the storage.
\<close>

lemma register_characterisation:
  assumes "isWebAuthnSupported w"
  shows "\<exists>evs. registerWebAuthnCredential w email username s =
     (case fst (beginRegistration w email username s) of
        Inl e \<Rightarrow>
          (Inr (failure (if instanceof_Error e then message_of w e else msg_registration_error)),
           evs, s)
      | Inr b \<Rightarrow>
          (case credentials_create w (JObj [(''publicKey'', publicKey b)]) of
             CredentialRejects e \<Rightarrow>
               (Inr (failure (if instanceof_Error e then message_of w e
                              else msg_registration_error)), evs, s)
           | CredentialResolves None \<Rightarrow> (Inr (failure msg_credential_creation_failed), evs, s)
           | CredentialResolves (Some cred) \<Rightarrow>
               (case fst (finishRegistration w (sessionId b) cred s) of
                  Inl e \<Rightarrow>
                    (Inr (failure (if instanceof_Error e then message_of w e
                                   else msg_registration_error)), evs, s)
                | Inr result \<Rightarrow>
                    (Inr (succeeded
                       (case get_prop result ''token'' of Inl x \<Rightarrow> JUndefined | Inr t \<Rightarrow> t)
                       (case get_prop result ''user'' of Inl x \<Rightarrow> JUndefined | Inr u \<Rightarrow> u)),
                     evs @ fst (snd (saveLastEmail w email s)),
                     snd (snd (saveLastEmail w email s))))))"
proof -
  obtain r evs where run: "beginRegistration w email username s = (r, evs, s)"
    using beginRegistration_run by blast
  show ?thesis
  proof (cases r)
    case (Inl e)
    with run register_begin_throws [OF assms, of email username s e evs s]
    show ?thesis by simp
  next
    case (Inr b)
    note b = this
    show ?thesis
    proof (cases "credentials_create w (JObj [(''publicKey'', publicKey b)])")
      case (CredentialRejects e)
      with run b register_platform_throws [OF assms, of email username s b evs s e]
      show ?thesis by simp
    next
      case (CredentialResolves c)
      note c = this
      show ?thesis
      proof (cases c)
        case None
        with run b c register_platform_null [OF assms, of email username s b evs s]
        show ?thesis by simp
      next
        case (Some cred)
        note cred = this
        obtain r2 evs2 where run2: "finishRegistration w (sessionId b) cred s = (r2, evs2, s)"
          using finishRegistration_run by blast
        show ?thesis
        proof (cases r2)
          case (Inl e)
          with run b c cred run2
            register_finish_throws [OF assms, of email username s b evs s cred e evs2 s]
          show ?thesis by simp
        next
          case (Inr result)
          obtain evs3 s3 where save: "saveLastEmail w email s = (Inr (), evs3, s3)"
            using saveLastEmail_run [OF supported_window [OF assms], of email s]
            by (cases "localStorage_setItem w ''webauthn_last_email'' email") simp_all
          from run b c cred run2 Inr save
            register_finish_returns [OF assms, of email username s b evs s cred result evs2 s evs3 s3]
          obtain t u where "get_prop result ''token'' = Inr t" "get_prop result ''user'' = Inr u"
            and "registerWebAuthnCredential w email username s =
              (Inr (succeeded t u),
               evs @ CredentialsCreate (JObj [(''publicKey'', publicKey b)]) # evs2 @ evs3, s3)"
            by auto
          with run b c cred run2 Inr save show ?thesis by simp
        qed
      qed
    qed
  qed
qed

text \<open>What is read of the host by the steps before the write does not depend on the storage.\<close>

lemma register_steps_storage:
  "isWebAuthnSupported (w\<lparr>localStorage_setItem := wr\<rparr>) = isWebAuthnSupported w"
  "beginRegistration (w\<lparr>localStorage_setItem := wr\<rparr>) email username = beginRegistration w email username"
  "finishRegistration (w\<lparr>localStorage_setItem := wr\<rparr>) session_id cred =
     finishRegistration w session_id cred"
  by (simp_all add: isWebAuthnSupported_def beginRegistration_def finishRegistration_def io_fetch_def
      API_BASE_URL_def)

lemma authenticate_characterisation:
  assumes "isWebAuthnSupported w"
  shows "\<exists>evs. authenticateWebAuthn w email s =
     (case fst (beginLogin w email s) of
        Inl e \<Rightarrow>
          (Inr (failure (if instanceof_Error e then message_of w e else msg_authentication_error)),
           evs, s)
      | Inr b \<Rightarrow>
          (case credentials_get w (JObj [(''publicKey'', publicKey b)]) of
             CredentialRejects e \<Rightarrow>
               (Inr (failure (if instanceof_Error e then message_of w e
                              else msg_authentication_error)), evs, s)
           | CredentialResolves None \<Rightarrow> (Inr (failure msg_authentication_failed), evs, s)
           | CredentialResolves (Some cred) \<Rightarrow>
               (case fst (finishLogin w (sessionId b) cred s) of
                  Inl e \<Rightarrow>
                    (Inr (failure (if instanceof_Error e then message_of w e
                                   else msg_authentication_error)), evs, s)
                | Inr result \<Rightarrow>
                    (Inr (succeeded
                       (case get_prop result ''token'' of Inl x \<Rightarrow> JUndefined | Inr t \<Rightarrow> t)
                       (case get_prop result ''user'' of Inl x \<Rightarrow> JUndefined | Inr u \<Rightarrow> u)),
                     evs @ fst (snd (saveLastEmail w email s)),
                     snd (snd (saveLastEmail w email s))))))"
proof -
  obtain r evs where run: "beginLogin w email s = (r, evs, s)"
    using beginLogin_run by blast
  show ?thesis
  proof (cases r)
    case (Inl e)
    with run authenticate_begin_throws [OF assms, of email s e evs s]
    show ?thesis by simp
  next
    case (Inr b)
    note b = this
    show ?thesis
    proof (cases "credentials_get w (JObj [(''publicKey'', publicKey b)])")
      case (CredentialRejects e)
      with run b authenticate_platform_throws [OF assms, of email s b evs s e]
      show ?thesis by simp
    next
      case (CredentialResolves c)
      note c = this
      show ?thesis
      proof (cases c)
        case None
        with run b c authenticate_platform_null [OF assms, of email s b evs s]
        show ?thesis by simp
      next
        case (Some cred)
        note cred = this
        obtain r2 evs2 where run2: "finishLogin w (sessionId b) cred s = (r2, evs2, s)"
          using finishLogin_run by blast
        show ?thesis
        proof (cases r2)
          case (Inl e)
          with run b c cred run2
            authenticate_finish_throws [OF assms, of email s b evs s cred e evs2 s]
          show ?thesis by simp
        next
          case (Inr result)
          obtain evs3 s3 where save: "saveLastEmail w email s = (Inr (), evs3, s3)"
            using saveLastEmail_run [OF supported_window [OF assms], of email s]
            by (cases "localStorage_setItem w ''webauthn_last_email'' email") simp_all
          from run b c cred run2 Inr save
            authenticate_finish_returns [OF assms, of email s b evs s cred result evs2 s evs3 s3]
          obtain t u where "get_prop result ''token'' = Inr t" "get_prop result ''user'' = Inr u"
            and "authenticateWebAuthn w email s =
              (Inr (succeeded t u),
               evs @ CredentialsGet (JObj [(''publicKey'', publicKey b)]) # evs2 @ evs3, s3)"
            by auto
          with run b c cred run2 Inr save show ?thesis by simp
        qed
      qed
    qed
  qed
qed

text \<open>What is read of the host by the steps before the write does not depend on the storage.\<close>

lemma authenticate_steps_storage:
  "isWebAuthnSupported (w\<lparr>localStorage_setItem := wr\<rparr>) = isWebAuthnSupported w"
  "beginLogin (w\<lparr>localStorage_setItem := wr\<rparr>) email = beginLogin w email"
  "finishLogin (w\<lparr>localStorage_setItem := wr\<rparr>) session_id cred =
     finishLogin w session_id cred"
  by (simp_all add: isWebAuthnSupported_def beginLogin_def finishLogin_def io_fetch_def
      API_BASE_URL_def)

lemma message_of_storage: "message_of (w\<lparr>localStorage_setItem := wr\<rparr>) e = message_of w e"
  by (cases e) simp_all

section \<open>A ceremony that succeeds\<close>

lemma register_success:
  assumes "isWebAuthnSupported w"
    and "fst (beginRegistration w email username s) = Inr b"
    and "credentials_create w (JObj [(''publicKey'', publicKey b)]) = CredentialResolves (Some cred)"
    and "fst (finishRegistration w (sessionId b) cred s) = Inr result"
  shows "\<exists>t u evs. get_prop result ''token'' = Inr t \<and> get_prop result ''user'' = Inr u \<and>
         registerWebAuthnCredential w email username s =
           (Inr (succeeded t u),
            evs @ SetItem ''webauthn_last_email'' email #
              (case localStorage_setItem w ''webauthn_last_email'' email of
                 None \<Rightarrow> []
               | Some e \<Rightarrow> [ConsoleError ''Failed to save last email:'' e]),
            (case localStorage_setItem w ''webauthn_last_email'' email of
               None \<Rightarrow> s(''webauthn_last_email'' \<mapsto> email)
             | Some e \<Rightarrow> s))"
proof -
  from assms(4) have "truthy result" by (rule finishRegistration_truthy)
  then obtain t u where t: "get_prop result ''token'' = Inr t"
    and u: "get_prop result ''user'' = Inr u"
    using truthy_get_prop by blast
  obtain evs where "registerWebAuthnCredential w email username s =
      (Inr (succeeded t u), evs @ fst (snd (saveLastEmail w email s)),
       snd (snd (saveLastEmail w email s)))"
    using register_characterisation [OF assms(1), of email username s] assms(2,3,4) t u by auto
  moreover have "fst (snd (saveLastEmail w email s)) =
      SetItem ''webauthn_last_email'' email #
        (case localStorage_setItem w ''webauthn_last_email'' email of
           None \<Rightarrow> []
         | Some e \<Rightarrow> [ConsoleError ''Failed to save last email:'' e])"
    and "snd (snd (saveLastEmail w email s)) =
      (case localStorage_setItem w ''webauthn_last_email'' email of
         None \<Rightarrow> s(''webauthn_last_email'' \<mapsto> email)
       | Some e \<Rightarrow> s)"
    using saveLastEmail_run [OF supported_window [OF assms(1)], of email s]
    by (simp_all split: option.split)
  ultimately show ?thesis using t u by auto
qed

lemma authenticate_success:
  assumes "isWebAuthnSupported w"
    and "fst (beginLogin w email s) = Inr b"
    and "credentials_get w (JObj [(''publicKey'', publicKey b)]) = CredentialResolves (Some cred)"
    and "fst (finishLogin w (sessionId b) cred s) = Inr result"
  shows "\<exists>t u evs. get_prop result ''token'' = Inr t \<and> get_prop result ''user'' = Inr u \<and>
         authenticateWebAuthn w email s =
           (Inr (succeeded t u),
            evs @ SetItem ''webauthn_last_email'' email #
              (case localStorage_setItem w ''webauthn_last_email'' email of
                 None \<Rightarrow> []
               | Some e \<Rightarrow> [ConsoleError ''Failed to save last email:'' e]),
            (case localStorage_setItem w ''webauthn_last_email'' email of
               None \<Rightarrow> s(''webauthn_last_email'' \<mapsto> email)
             | Some e \<Rightarrow> s))"
proof -
  from assms(4) have "truthy result" by (rule finishLogin_truthy)
  then obtain t u where t: "get_prop result ''token'' = Inr t"
    and u: "get_prop result ''user'' = Inr u"
    using truthy_get_prop by blast
  obtain evs where "authenticateWebAuthn w email s =
      (Inr (succeeded t u), evs @ fst (snd (saveLastEmail w email s)),
       snd (snd (saveLastEmail w email s)))"
    using authenticate_characterisation [OF assms(1), of email s] assms(2,3,4) t u by auto
  moreover have "fst (snd (saveLastEmail w email s)) =
      SetItem ''webauthn_last_email'' email #
        (case localStorage_setItem w ''webauthn_last_email'' email of
           None \<Rightarrow> []
         | Some e \<Rightarrow> [ConsoleError ''Failed to save last email:'' e])"
    and "snd (snd (saveLastEmail w email s)) =
      (case localStorage_setItem w ''webauthn_last_email'' email of
         None \<Rightarrow> s(''webauthn_last_email'' \<mapsto> email)
       | Some e \<Rightarrow> s)"
    using saveLastEmail_run [OF supported_window [OF assms(1)], of email s]
    by (simp_all split: option.split)
  ultimately show ?thesis using t u by auto
qed

text \<open>
  C5, as the code has it. Let the platform support WebAuthn, let the begin call return,
  the platform return a credential and the finish call return \<open>result\<close>. Then the ceremony
  returns \<^verbatim>\<open>{success: true, token, user}\<close> with the \<^verbatim>\<open>token\<close> and \<^verbatim>\<open>user\<close> of
  \<open>result\<close> (\<^verbatim>\<open>undefined\<close> where \<open>result\<close> has none), and its last step is the call
  \<^verbatim>\<open>localStorage.setItem('webauthn_last_email', email)\<close>. Where that write is accepted,
  the storage holds the email under that key afterwards; where it throws, the thrown
  value goes to the console and the storage is as it was.
\<close>

theorem successful_ceremony:
  "(isWebAuthnSupported w \<and>
    fst (beginRegistration w email username s) = Inr b \<and>
    credentials_create w (JObj [(''publicKey'', publicKey b)]) =
      CredentialResolves (Some attestation) \<and>
    fst (finishRegistration w (sessionId b) attestation s) = Inr result \<longrightarrow>
      (\<exists>t u evs. get_prop result ''token'' = Inr t \<and> get_prop result ''user'' = Inr u \<and>
         registerWebAuthnCredential w email username s =
           (Inr (succeeded t u),
            evs @ SetItem ''webauthn_last_email'' email #
              (case localStorage_setItem w ''webauthn_last_email'' email of
                 None \<Rightarrow> []
               | Some e \<Rightarrow> [ConsoleError ''Failed to save last email:'' e]),
            (case localStorage_setItem w ''webauthn_last_email'' email of
               None \<Rightarrow> s(''webauthn_last_email'' \<mapsto> email)
             | Some e \<Rightarrow> s)))) \<and>
   (isWebAuthnSupported w \<and>
    fst (beginLogin w email s) = Inr b \<and>
    credentials_get w (JObj [(''publicKey'', publicKey b)]) =
      CredentialResolves (Some assertion) \<and>
    fst (finishLogin w (sessionId b) assertion s) = Inr result \<longrightarrow>
      (\<exists>t u evs. get_prop result ''token'' = Inr t \<and> get_prop result ''user'' = Inr u \<and>
         authenticateWebAuthn w email s =
           (Inr (succeeded t u),
            evs @ SetItem ''webauthn_last_email'' email #
              (case localStorage_setItem w ''webauthn_last_email'' email of
                 None \<Rightarrow> []
               | Some e \<Rightarrow> [ConsoleError ''Failed to save last email:'' e]),
            (case localStorage_setItem w ''webauthn_last_email'' email of
               None \<Rightarrow> s(''webauthn_last_email'' \<mapsto> email)
             | Some e \<Rightarrow> s))))"
  using register_success [of w email username s b attestation result]
    authenticate_success [of w email s b assertion result]
  by blast

text \<open>
  At the example hosts with a storage that accepts the write: both ceremonies return the
  server's token, and the storage, empty before, holds the email.
\<close>

theorem successful_ceremony_witness:
  "isWebAuthnSupported (example_registration_world None) \<and>
   fst (beginRegistration (example_registration_world None) ''a@b.c'' ''alice'' Map.empty) =
     Inr \<lparr>publicKey = example_creation_options_decoded, sessionId = JStr ''s-1''\<rparr> \<and>
   fst (finishRegistration (example_registration_world None) (JStr ''s-1'') example_attestation
          Map.empty) = Inr (JObj [(''token'', JStr ''jwt'')]) \<and>
   (\<exists>evs. registerWebAuthnCredential (example_registration_world None) ''a@b.c'' ''alice''
            Map.empty =
      (Inr (succeeded (JStr ''jwt'') JUndefined),
       evs @ [SetItem ''webauthn_last_email'' ''a@b.c''],
       [''webauthn_last_email'' \<mapsto> ''a@b.c''])) \<and>
   (\<exists>evs. authenticateWebAuthn (example_login_world None) ''a@b.c'' Map.empty =
      (Inr (succeeded (JStr ''jwt'') JUndefined),
       evs @ [SetItem ''webauthn_last_email'' ''a@b.c''],
       [''webauthn_last_email'' \<mapsto> ''a@b.c'']))"
proof -
  let ?b1 = "\<lparr>publicKey = example_creation_options_decoded, sessionId = JStr ''s-1''\<rparr>"
  let ?b2 = "\<lparr>publicKey = example_request_options_decoded, sessionId = JStr ''s-1''\<rparr>"
  let ?result = "JObj [(''token'', JStr ''jwt'')]"
  have props: "get_prop ?result ''token'' = Inr (JStr ''jwt'')"
    "get_prop ?result ''user'' = Inr JUndefined"
    by (simp_all add: prop_of_def)
  have r: "\<exists>evs. registerWebAuthnCredential (example_registration_world None) ''a@b.c'' ''alice''
            Map.empty =
      (Inr (succeeded (JStr ''jwt'') JUndefined),
       evs @ [SetItem ''webauthn_last_email'' ''a@b.c''],
       [''webauthn_last_email'' \<mapsto> ''a@b.c''])"
    using successful_ceremony
      [of "example_registration_world None" "''a@b.c''" "''alice''" Map.empty ?b1
          example_attestation ?result, THEN conjunct1]
      example_worlds [of None] example_registration_steps [of None] props
    by auto
  have a: "\<exists>evs. authenticateWebAuthn (example_login_world None) ''a@b.c'' Map.empty =
      (Inr (succeeded (JStr ''jwt'') JUndefined),
       evs @ [SetItem ''webauthn_last_email'' ''a@b.c''],
       [''webauthn_last_email'' \<mapsto> ''a@b.c''])"
    using successful_ceremony
      [of "example_login_world None" "''a@b.c''" _ Map.empty ?b2 _ ?result
          "example_assertion None", THEN conjunct2]
      example_worlds [of None] example_login_steps [of None] props
    by auto
  from r a example_worlds(1) [of None] example_registration_steps [of None]
  show ?thesis by blast
qed

text \<open>
  C5 as stated fails where the storage refuses the write. At the example host whose
  \<^verbatim>\<open>setItem\<close> throws, with an older address in the storage: begin, platform call and
  finish succeed, the ceremony returns success, and the storage still holds the older
  address.
\<close>

theorem successful_ceremony_counterexample:
  "isWebAuthnSupported (example_registration_world (Some (HostError True ''QuotaExceededError''))) \<and>
   fst (beginRegistration (example_registration_world (Some (HostError True ''QuotaExceededError'')))
          ''a@b.c'' ''alice'' [''webauthn_last_email'' \<mapsto> ''old@b.c'']) =
     Inr \<lparr>publicKey = example_creation_options_decoded, sessionId = JStr ''s-1''\<rparr> \<and>
   credentials_create (example_registration_world (Some (HostError True ''QuotaExceededError'')))
     (JObj [(''publicKey'', example_creation_options_decoded)]) =
     CredentialResolves (Some example_attestation) \<and>
   fst (finishRegistration (example_registration_world (Some (HostError True ''QuotaExceededError'')))
          (JStr ''s-1'') example_attestation [''webauthn_last_email'' \<mapsto> ''old@b.c'']) =
     Inr (JObj [(''token'', JStr ''jwt'')]) \<and>
   fst (registerWebAuthnCredential
          (example_registration_world (Some (HostError True ''QuotaExceededError'')))
          ''a@b.c'' ''alice'' [''webauthn_last_email'' \<mapsto> ''old@b.c'']) =
     Inr (succeeded (JStr ''jwt'') JUndefined) \<and>
   snd (snd (registerWebAuthnCredential
          (example_registration_world (Some (HostError True ''QuotaExceededError'')))
          ''a@b.c'' ''alice'' [''webauthn_last_email'' \<mapsto> ''old@b.c'']))
     ''webauthn_last_email'' = Some ''old@b.c'' \<and>
   Some ''old@b.c'' \<noteq> Some ''a@b.c''"
proof -
  let ?w = "example_registration_world (Some (HostError True ''QuotaExceededError''))"
  let ?s = "[''webauthn_last_email'' \<mapsto> ''old@b.c'']"
  let ?b = "\<lparr>publicKey = example_creation_options_decoded, sessionId = JStr ''s-1''\<rparr>"
  let ?result = "JObj [(''token'', JStr ''jwt'')]"
  have sup: "isWebAuthnSupported ?w" by (rule example_worlds)
  have b: "fst (beginRegistration ?w ''a@b.c'' ''alice'' ?s) = Inr ?b"
    by (rule example_registration_steps)
  have c: "credentials_create ?w (JObj [(''publicKey'', publicKey ?b)]) =
      CredentialResolves (Some example_attestation)"
    by (rule example_worlds)
  have f: "fst (finishRegistration ?w (sessionId ?b) example_attestation ?s) = Inr ?result"
    by (rule example_registration_steps)
  have props: "get_prop ?result ''token'' = Inr (JStr ''jwt'')"
    "get_prop ?result ''user'' = Inr JUndefined"
    by (simp_all add: prop_of_def)
  have w: "localStorage_setItem ?w ''webauthn_last_email'' ''a@b.c'' =
      Some (HostError True ''QuotaExceededError'')"
    by (rule example_worlds)
  from register_success [OF sup b c f] props w
  have "fst (registerWebAuthnCredential ?w ''a@b.c'' ''alice'' ?s) =
      Inr (succeeded (JStr ''jwt'') JUndefined)"
    and "snd (snd (registerWebAuthnCredential ?w ''a@b.c'' ''alice'' ?s)) = ?s"
    by auto
  with sup b c f show ?thesis by simp
qed

section \<open>A platform without the credential API\<close>

text \<open>
  C6. Where \<open>isWebAuthnSupported\<close> is false, \<open>registerWebAuthnCredential\<close> and
  \<open>authenticateWebAuthn\<close> return \<^verbatim>\<open>{success: false, error: m}\<close> with the message that
  WebAuthn is not supported; they have no effect at all (the list of effects is empty, so
  no request is sent), and the storage is as it was.
\<close>

theorem unsupported_platform_stops_ceremony:
  "\<not> isWebAuthnSupported w \<longrightarrow>
     registerWebAuthnCredential w email username s =
       (Inr (failure msg_webauthn_unsupported), [], s) \<and>
     authenticateWebAuthn w email s = (Inr (failure msg_webauthn_unsupported), [], s)"
  by (simp add: registerWebAuthnCredential_def authenticateWebAuthn_def io_return_def)

text \<open>
  Two such platforms: one without \<^verbatim>\<open>window\<close>, one whose
  \<^verbatim>\<open>window.PublicKeyCredential\<close> is \<^verbatim>\<open>undefined\<close>.
\<close>

theorem unsupported_platform_stops_ceremony_witness:
  "\<not> isWebAuthnSupported
       ((example_world (FetchRejects (HostError True ''unreachable''))
           (FetchRejects (HostError True ''unreachable'')) None)
        \<lparr>window := None\<rparr>) \<and>
   registerWebAuthnCredential
       ((example_world (FetchRejects (HostError True ''unreachable''))
           (FetchRejects (HostError True ''unreachable'')) None)
        \<lparr>window := None\<rparr>)
       ''a@b.c'' ''alice'' Map.empty =
     (Inr (failure msg_webauthn_unsupported), [], Map.empty) \<and>
   \<not> isWebAuthnSupported
       ((example_world (FetchRejects (HostError True ''unreachable''))
           (FetchRejects (HostError True ''unreachable'')) None)
        \<lparr>window := Some \<lparr>PublicKeyCredential = GlobalUndefined\<rparr>\<rparr>) \<and>
   authenticateWebAuthn
       ((example_world (FetchRejects (HostError True ''unreachable''))
           (FetchRejects (HostError True ''unreachable'')) None)
        \<lparr>window := Some \<lparr>PublicKeyCredential = GlobalUndefined\<rparr>\<rparr>)
       ''a@b.c'' Map.empty =
     (Inr (failure msg_webauthn_unsupported), [], Map.empty)"
proof -
  let ?w = "example_world (FetchRejects (HostError True ''unreachable''))
              (FetchRejects (HostError True ''unreachable'')) None"
  have a: "\<not> isWebAuthnSupported (?w\<lparr>window := None\<rparr>)"
    by (simp add: isWebAuthnSupported_def)
  have b: "\<not> isWebAuthnSupported
             (?w\<lparr>window := Some \<lparr>PublicKeyCredential = GlobalUndefined\<rparr>\<rparr>)"
    by (simp add: isWebAuthnSupported_def)
  from a b
    unsupported_platform_stops_ceremony
      [of "?w\<lparr>window := None\<rparr>" "''a@b.c''" "''alice''" Map.empty]
    unsupported_platform_stops_ceremony
      [of "?w\<lparr>window := Some \<lparr>PublicKeyCredential = GlobalUndefined\<rparr>\<rparr>"
          "''a@b.c''" "''alice''" Map.empty]
  show ?thesis by simp
qed

section \<open>A ceremony never raises\<close>

lemma register_returns:
  "\<exists>r evs s'. registerWebAuthnCredential w email username s = (Inr r, evs, s') \<and>
     ((\<exists>m. r = failure m) \<or> (\<exists>t u. r = succeeded t u))"
proof (cases "isWebAuthnSupported w")
  case False
  then show ?thesis by (simp add: registerWebAuthnCredential_def io_return_def)
next
  case True
  from register_characterisation [OF True, of email username s] obtain evs where
    "registerWebAuthnCredential w email username s =
     (case fst (beginRegistration w email username s) of
        Inl e \<Rightarrow>
          (Inr (failure (if instanceof_Error e then message_of w e else msg_registration_error)),
           evs, s)
      | Inr b \<Rightarrow>
          (case credentials_create w (JObj [(''publicKey'', publicKey b)]) of
             CredentialRejects e \<Rightarrow>
               (Inr (failure (if instanceof_Error e then message_of w e
                              else msg_registration_error)), evs, s)
           | CredentialResolves None \<Rightarrow> (Inr (failure msg_credential_creation_failed), evs, s)
           | CredentialResolves (Some cred) \<Rightarrow>
               (case fst (finishRegistration w (sessionId b) cred s) of
                  Inl e \<Rightarrow>
                    (Inr (failure (if instanceof_Error e then message_of w e
                                   else msg_registration_error)), evs, s)
                | Inr result \<Rightarrow>
                    (Inr (succeeded
                       (case get_prop result ''token'' of Inl x \<Rightarrow> JUndefined | Inr t \<Rightarrow> t)
                       (case get_prop result ''user'' of Inl x \<Rightarrow> JUndefined | Inr u \<Rightarrow> u)),
                     evs @ fst (snd (saveLastEmail w email s)),
                     snd (snd (saveLastEmail w email s))))))"
    by blast
  then show ?thesis
    by (simp split: sum.split credential_outcome.split option.split)
qed

lemma register_storage_independent:
  "fst (registerWebAuthnCredential (w\<lparr>localStorage_setItem := wr\<rparr>) email username s) =
   fst (registerWebAuthnCredential w email username s)"
proof (cases "isWebAuthnSupported w")
  case False
  then show ?thesis
    by (simp add: registerWebAuthnCredential_def io_return_def register_steps_storage(1))
next
  case True
  then have True': "isWebAuthnSupported (w\<lparr>localStorage_setItem := wr\<rparr>)"
    by (simp add: register_steps_storage(1))
  from register_characterisation [OF True, of email username s]
    register_characterisation [OF True', of email username s]
  show ?thesis
    by (auto simp add: register_steps_storage message_of_storage
        split: sum.splits credential_outcome.splits option.splits)
qed

lemma register_dichotomy:
  assumes "isWebAuthnSupported w"
  shows "(\<exists>m evs. registerWebAuthnCredential w email username s = (Inr (failure m), evs, s)) \<or>
         (\<exists>t u evs. registerWebAuthnCredential w email username s =
            (Inr (succeeded t u), evs @ fst (snd (saveLastEmail w email s)),
             snd (snd (saveLastEmail w email s))))"
  using register_characterisation [OF assms, of email username s]
  by (auto split: sum.split credential_outcome.split option.split)

lemma register_storage_failure_logged:
  assumes "localStorage_setItem w ''webauthn_last_email'' email = Some e"
    and "fst (registerWebAuthnCredential w email username s) = Inr (succeeded t u)"
  shows "\<exists>evs. snd (registerWebAuthnCredential w email username s) =
           (evs @ [SetItem ''webauthn_last_email'' email,
                   ConsoleError ''Failed to save last email:'' e], s)"
proof (cases "isWebAuthnSupported w")
  case False
  with assms(2) show ?thesis by (simp add: registerWebAuthnCredential_def io_return_def)
next
  case True
  have save: "saveLastEmail w email s =
      (Inr (), [SetItem ''webauthn_last_email'' email,
                ConsoleError ''Failed to save last email:'' e], s)"
    using saveLastEmail_run [OF supported_window [OF True], of email s] assms(1) by simp
  from register_dichotomy [OF True, of email username s] show ?thesis
  proof
    assume "\<exists>m evs. registerWebAuthnCredential w email username s = (Inr (failure m), evs, s)"
    with assms(2) show ?thesis by auto
  next
    assume "\<exists>t u evs. registerWebAuthnCredential w email username s =
            (Inr (succeeded t u), evs @ fst (snd (saveLastEmail w email s)),
             snd (snd (saveLastEmail w email s)))"
    then show ?thesis by (auto simp add: save)
  qed
qed

lemma authenticate_returns:
  "\<exists>r evs s'. authenticateWebAuthn w email s = (Inr r, evs, s') \<and>
     ((\<exists>m. r = failure m) \<or> (\<exists>t u. r = succeeded t u))"
proof (cases "isWebAuthnSupported w")
  case False
  then show ?thesis by (simp add: authenticateWebAuthn_def io_return_def)
next
  case True
  from authenticate_characterisation [OF True, of email s] obtain evs where
    "authenticateWebAuthn w email s =
     (case fst (beginLogin w email s) of
        Inl e \<Rightarrow>
          (Inr (failure (if instanceof_Error e then message_of w e else msg_authentication_error)),
           evs, s)
      | Inr b \<Rightarrow>
          (case credentials_get w (JObj [(''publicKey'', publicKey b)]) of
             CredentialRejects e \<Rightarrow>
               (Inr (failure (if instanceof_Error e then message_of w e
                              else msg_authentication_error)), evs, s)
           | CredentialResolves None \<Rightarrow> (Inr (failure msg_authentication_failed), evs, s)
           | CredentialResolves (Some cred) \<Rightarrow>
               (case fst (finishLogin w (sessionId b) cred s) of
                  Inl e \<Rightarrow>
                    (Inr (failure (if instanceof_Error e then message_of w e
                                   else msg_authentication_error)), evs, s)
                | Inr result \<Rightarrow>
                    (Inr (succeeded
                       (case get_prop result ''token'' of Inl x \<Rightarrow> JUndefined | Inr t \<Rightarrow> t)
                       (case get_prop result ''user'' of Inl x \<Rightarrow> JUndefined | Inr u \<Rightarrow> u)),
                     evs @ fst (snd (saveLastEmail w email s)),
                     snd (snd (saveLastEmail w email s))))))"
    by blast
  then show ?thesis
    by (simp split: sum.split credential_outcome.split option.split)
qed

lemma authenticate_storage_independent:
  "fst (authenticateWebAuthn (w\<lparr>localStorage_setItem := wr\<rparr>) email s) =
   fst (authenticateWebAuthn w email s)"
proof (cases "isWebAuthnSupported w")
  case False
  then show ?thesis
    by (simp add: authenticateWebAuthn_def io_return_def authenticate_steps_storage(1))
next
  case True
  then have True': "isWebAuthnSupported (w\<lparr>localStorage_setItem := wr\<rparr>)"
    by (simp add: authenticate_steps_storage(1))
  from authenticate_characterisation [OF True, of email s]
    authenticate_characterisation [OF True', of email s]
  show ?thesis
    by (auto simp add: authenticate_steps_storage message_of_storage
        split: sum.splits credential_outcome.splits option.splits)
qed

lemma authenticate_dichotomy:
  assumes "isWebAuthnSupported w"
  shows "(\<exists>m evs. authenticateWebAuthn w email s = (Inr (failure m), evs, s)) \<or>
         (\<exists>t u evs. authenticateWebAuthn w email s =
            (Inr (succeeded t u), evs @ fst (snd (saveLastEmail w email s)),
             snd (snd (saveLastEmail w email s))))"
  using authenticate_characterisation [OF assms, of email s]
  by (auto split: sum.split credential_outcome.split option.split)

lemma authenticate_storage_failure_logged:
  assumes "localStorage_setItem w ''webauthn_last_email'' email = Some e"
    and "fst (authenticateWebAuthn w email s) = Inr (succeeded t u)"
  shows "\<exists>evs. snd (authenticateWebAuthn w email s) =
           (evs @ [SetItem ''webauthn_last_email'' email,
                   ConsoleError ''Failed to save last email:'' e], s)"
proof (cases "isWebAuthnSupported w")
  case False
  with assms(2) show ?thesis by (simp add: authenticateWebAuthn_def io_return_def)
next
  case True
  have save: "saveLastEmail w email s =
      (Inr (), [SetItem ''webauthn_last_email'' email,
                ConsoleError ''Failed to save last email:'' e], s)"
    using saveLastEmail_run [OF supported_window [OF True], of email s] assms(1) by simp
  from authenticate_dichotomy [OF True, of email s] show ?thesis
  proof
    assume "\<exists>m evs. authenticateWebAuthn w email s = (Inr (failure m), evs, s)"
    with assms(2) show ?thesis by auto
  next
    assume "\<exists>t u evs. authenticateWebAuthn w email s =
            (Inr (succeeded t u), evs @ fst (snd (saveLastEmail w email s)),
             snd (snd (saveLastEmail w email s)))"
    then show ?thesis by (auto simp add: save)
  qed
qed

text \<open>
  A request that rejects makes the call throw what it rejected with: nothing in the four
  calls catches it.
\<close>

lemma beginLogin_fetch_rejects:
  assumes "fetch w (API_BASE_URL w @ ''/api/v1/auth/login/begin'')
             (stringify_object [(''email'', JStr email)]) = FetchRejects e"
  shows "fst (beginLogin w email s) = Inl e"
  using assms by (simp add: beginLogin_def io_defs Let_def)

lemma finishRegistration_fetch_rejects:
  assumes "fetch w (API_BASE_URL w @ ''/api/v1/auth/register/finish'')
             (stringify_object (finishRegistration_requestData session_id credential)) =
           FetchRejects e"
  shows "fst (finishRegistration w session_id credential s) = Inl e"
  using assms by (simp add: finishRegistration_def io_defs Let_def)

text \<open>
  What a ceremony returns, step by step: the outcome of the first step that fails decides
  the result, and only a ceremony whose three steps all succeed reports a success.
\<close>

lemma register_step_outcomes:
  "(\<not> isWebAuthnSupported w \<longrightarrow>
      registerWebAuthnCredential w email username s =
        (Inr (failure msg_webauthn_unsupported), [], s)) \<and>
   (isWebAuthnSupported w \<and> fst (beginRegistration w email username s) = Inl e \<longrightarrow>
      (\<exists>evs. registerWebAuthnCredential w email username s =
         (Inr (failure (if instanceof_Error e then message_of w e else msg_registration_error)),
          evs, s))) \<and>
   (isWebAuthnSupported w \<and> fst (beginRegistration w email username s) = Inr b \<and>
    credentials_create w (JObj [(''publicKey'', publicKey b)]) = CredentialRejects e \<longrightarrow>
      (\<exists>evs. registerWebAuthnCredential w email username s =
         (Inr (failure (if instanceof_Error e then message_of w e else msg_registration_error)),
          evs, s))) \<and>
   (isWebAuthnSupported w \<and> fst (beginRegistration w email username s) = Inr b \<and>
    credentials_create w (JObj [(''publicKey'', publicKey b)]) = CredentialResolves None \<longrightarrow>
      (\<exists>evs. registerWebAuthnCredential w email username s =
         (Inr (failure msg_credential_creation_failed), evs, s))) \<and>
   (isWebAuthnSupported w \<and> fst (beginRegistration w email username s) = Inr b \<and>
    credentials_create w (JObj [(''publicKey'', publicKey b)]) =
      CredentialResolves (Some cred) \<and>
    fst (finishRegistration w (sessionId b) cred s) = Inl e \<longrightarrow>
      (\<exists>evs. registerWebAuthnCredential w email username s =
         (Inr (failure (if instanceof_Error e then message_of w e else msg_registration_error)),
          evs, s))) \<and>
   (isWebAuthnSupported w \<and> fst (beginRegistration w email username s) = Inr b \<and>
    credentials_create w (JObj [(''publicKey'', publicKey b)]) =
      CredentialResolves (Some cred) \<and>
    fst (finishRegistration w (sessionId b) cred s) = Inr result \<longrightarrow>
      (\<exists>t u. get_prop result ''token'' = Inr t \<and> get_prop result ''user'' = Inr u \<and>
         fst (registerWebAuthnCredential w email username s) = Inr (succeeded t u)))"
proof (intro conjI impI)
  assume "\<not> isWebAuthnSupported w"
  then show "registerWebAuthnCredential w email username s =
      (Inr (failure msg_webauthn_unsupported), [], s)"
    by (simp add: registerWebAuthnCredential_def io_return_def)
next
  assume "isWebAuthnSupported w \<and> fst (beginRegistration w email username s) = Inl e"
  with register_characterisation [of w email username s]
  show "\<exists>evs. registerWebAuthnCredential w email username s =
      (Inr (failure (if instanceof_Error e then message_of w e else msg_registration_error)),
       evs, s)"
    by auto
next
  assume "isWebAuthnSupported w \<and> fst (beginRegistration w email username s) = Inr b \<and>
    credentials_create w (JObj [(''publicKey'', publicKey b)]) = CredentialRejects e"
  with register_characterisation [of w email username s]
  show "\<exists>evs. registerWebAuthnCredential w email username s =
      (Inr (failure (if instanceof_Error e then message_of w e else msg_registration_error)),
       evs, s)"
    by auto
next
  assume "isWebAuthnSupported w \<and> fst (beginRegistration w email username s) = Inr b \<and>
    credentials_create w (JObj [(''publicKey'', publicKey b)]) = CredentialResolves None"
  with register_characterisation [of w email username s]
  show "\<exists>evs. registerWebAuthnCredential w email username s =
      (Inr (failure msg_credential_creation_failed), evs, s)"
    by auto
next
  assume "isWebAuthnSupported w \<and> fst (beginRegistration w email username s) = Inr b \<and>
    credentials_create w (JObj [(''publicKey'', publicKey b)]) =
      CredentialResolves (Some cred) \<and>
    fst (finishRegistration w (sessionId b) cred s) = Inl e"
  with register_characterisation [of w email username s]
  show "\<exists>evs. registerWebAuthnCredential w email username s =
      (Inr (failure (if instanceof_Error e then message_of w e else msg_registration_error)),
       evs, s)"
    by auto
next
  assume "isWebAuthnSupported w \<and> fst (beginRegistration w email username s) = Inr b \<and>
    credentials_create w (JObj [(''publicKey'', publicKey b)]) =
      CredentialResolves (Some cred) \<and>
    fst (finishRegistration w (sessionId b) cred s) = Inr result"
  with register_success [of w email username s b cred result]
  show "\<exists>t u. get_prop result ''token'' = Inr t \<and> get_prop result ''user'' = Inr u \<and>
      fst (registerWebAuthnCredential w email username s) = Inr (succeeded t u)"
    by auto
qed

lemma authenticate_step_outcomes:
  "(\<not> isWebAuthnSupported w \<longrightarrow>
      authenticateWebAuthn w email s = (Inr (failure msg_webauthn_unsupported), [], s)) \<and>
   (isWebAuthnSupported w \<and> fst (beginLogin w email s) = Inl e \<longrightarrow>
      (\<exists>evs. authenticateWebAuthn w email s =
         (Inr (failure (if instanceof_Error e then message_of w e else msg_authentication_error)),
          evs, s))) \<and>
   (isWebAuthnSupported w \<and> fst (beginLogin w email s) = Inr b \<and>
    credentials_get w (JObj [(''publicKey'', publicKey b)]) = CredentialRejects e \<longrightarrow>
      (\<exists>evs. authenticateWebAuthn w email s =
         (Inr (failure (if instanceof_Error e then message_of w e else msg_authentication_error)),
          evs, s))) \<and>
   (isWebAuthnSupported w \<and> fst (beginLogin w email s) = Inr b \<and>
    credentials_get w (JObj [(''publicKey'', publicKey b)]) = CredentialResolves None \<longrightarrow>
      (\<exists>evs. authenticateWebAuthn w email s =
         (Inr (failure msg_authentication_failed), evs, s))) \<and>
   (isWebAuthnSupported w \<and> fst (beginLogin w email s) = Inr b \<and>
    credentials_get w (JObj [(''publicKey'', publicKey b)]) = CredentialResolves (Some cred) \<and>
    fst (finishLogin w (sessionId b) cred s) = Inl e \<longrightarrow>
      (\<exists>evs. authenticateWebAuthn w email s =
         (Inr (failure (if instanceof_Error e then message_of w e else msg_authentication_error)),
          evs, s))) \<and>
   (isWebAuthnSupported w \<and> fst (beginLogin w email s) = Inr b \<and>
    credentials_get w (JObj [(''publicKey'', publicKey b)]) = CredentialResolves (Some cred) \<and>
    fst (finishLogin w (sessionId b) cred s) = Inr result \<longrightarrow>
      (\<exists>t u. get_prop result ''token'' = Inr t \<and> get_prop result ''user'' = Inr u \<and>
         fst (authenticateWebAuthn w email s) = Inr (succeeded t u)))"
proof (intro conjI impI)
  assume "\<not> isWebAuthnSupported w"
  then show "authenticateWebAuthn w email s = (Inr (failure msg_webauthn_unsupported), [], s)"
    by (simp add: authenticateWebAuthn_def io_return_def)
next
  assume "isWebAuthnSupported w \<and> fst (beginLogin w email s) = Inl e"
  with authenticate_characterisation [of w email s]
  show "\<exists>evs. authenticateWebAuthn w email s =
      (Inr (failure (if instanceof_Error e then message_of w e else msg_authentication_error)),
       evs, s)"
    by auto
next
  assume "isWebAuthnSupported w \<and> fst (beginLogin w email s) = Inr b \<and>
    credentials_get w (JObj [(''publicKey'', publicKey b)]) = CredentialRejects e"
  with authenticate_characterisation [of w email s]
  show "\<exists>evs. authenticateWebAuthn w email s =
      (Inr (failure (if instanceof_Error e then message_of w e else msg_authentication_error)),
       evs, s)"
    by auto
next
  assume "isWebAuthnSupported w \<and> fst (beginLogin w email s) = Inr b \<and>
    credentials_get w (JObj [(''publicKey'', publicKey b)]) = CredentialResolves None"
  with authenticate_characterisation [of w email s]
  show "\<exists>evs. authenticateWebAuthn w email s =
      (Inr (failure msg_authentication_failed), evs, s)"
    by auto
next
  assume "isWebAuthnSupported w \<and> fst (beginLogin w email s) = Inr b \<and>
    credentials_get w (JObj [(''publicKey'', publicKey b)]) = CredentialResolves (Some cred) \<and>
    fst (finishLogin w (sessionId b) cred s) = Inl e"
  with authenticate_characterisation [of w email s]
  show "\<exists>evs. authenticateWebAuthn w email s =
      (Inr (failure (if instanceof_Error e then message_of w e else msg_authentication_error)),
       evs, s)"
    by auto
next
  assume "isWebAuthnSupported w \<and> fst (beginLogin w email s) = Inr b \<and>
    credentials_get w (JObj [(''publicKey'', publicKey b)]) = CredentialResolves (Some cred) \<and>
    fst (finishLogin w (sessionId b) cred s) = Inr result"
  with authenticate_success [of w email s b cred result]
  show "\<exists>t u. get_prop result ''token'' = Inr t \<and> get_prop result ''user'' = Inr u \<and>
      fst (authenticateWebAuthn w email s) = Inr (succeeded t u)"
    by auto
qed

text \<open>
  C7. Whatever the host does, \<open>registerWebAuthnCredential\<close> and \<open>authenticateWebAuthn\<close>
  return, and what they return is \<^verbatim>\<open>{success: false, error: m}\<close> for a string
  \<open>m\<close>, or \<^verbatim>\<open>{success: true, token, user}\<close>. Step by step, on a platform that
  supports WebAuthn:

  \<^item> where the begin call throws \<open>e\<close>, where the platform call rejects with \<open>e\<close>, and where
    the finish call throws \<open>e\<close>, the result is \<^verbatim>\<open>{success: false, error: m}\<close> with
    \<open>m\<close> the message of \<open>e\<close> if \<open>e\<close> is an \<^verbatim>\<open>Error\<close> and the fallback text of the
    ceremony otherwise, and the storage is as it was;
  \<^item> where the platform call resolves with \<^verbatim>\<open>null\<close>, the result is
    \<^verbatim>\<open>{success: false, error: m}\<close> with \<open>m\<close> the text for a missing credential, and
    the storage is as it was;
  \<^item> where the three steps succeed, the result is
    \<^verbatim>\<open>{success: true, token, user}\<close> with the \<^verbatim>\<open>token\<close> and
    \<^verbatim>\<open>user\<close> of what the finish call returned, whatever the storage does with the
    write.

  On a platform that does not support WebAuthn the result is
  \<^verbatim>\<open>{success: false, error: m}\<close> with \<open>m\<close> the text for an unsupported platform.
  What a ceremony returns does not depend on what the storage does with a write. Where
  the write throws in a ceremony that succeeds, the last two effects are the write and the
  report of the thrown value on the console, and the storage is as it was.
\<close>

theorem ceremonies_never_raise:
  "(\<exists>r evs s'. registerWebAuthnCredential w email username s = (Inr r, evs, s') \<and>
      ((\<exists>m. r = failure m) \<or> (\<exists>t u. r = succeeded t u))) \<and>
   (\<exists>r evs s'. authenticateWebAuthn w email s = (Inr r, evs, s') \<and>
      ((\<exists>m. r = failure m) \<or> (\<exists>t u. r = succeeded t u))) \<and>
   ((\<not> isWebAuthnSupported w \<longrightarrow>
      registerWebAuthnCredential w email username s =
        (Inr (failure msg_webauthn_unsupported), [], s)) \<and>
    (isWebAuthnSupported w \<and> fst (beginRegistration w email username s) = Inl e \<longrightarrow>
      (\<exists>evs. registerWebAuthnCredential w email username s =
         (Inr (failure (if instanceof_Error e then message_of w e else msg_registration_error)),
          evs, s))) \<and>
    (isWebAuthnSupported w \<and> fst (beginRegistration w email username s) = Inr b \<and>
     credentials_create w (JObj [(''publicKey'', publicKey b)]) = CredentialRejects e \<longrightarrow>
      (\<exists>evs. registerWebAuthnCredential w email username s =
         (Inr (failure (if instanceof_Error e then message_of w e else msg_registration_error)),
          evs, s))) \<and>
    (isWebAuthnSupported w \<and> fst (beginRegistration w email username s) = Inr b \<and>
     credentials_create w (JObj [(''publicKey'', publicKey b)]) = CredentialResolves None \<longrightarrow>
      (\<exists>evs. registerWebAuthnCredential w email username s =
         (Inr (failure msg_credential_creation_failed), evs, s))) \<and>
    (isWebAuthnSupported w \<and> fst (beginRegistration w email username s) = Inr b \<and>
     credentials_create w (JObj [(''publicKey'', publicKey b)]) =
       CredentialResolves (Some attestation) \<and>
     fst (finishRegistration w (sessionId b) attestation s) = Inl e \<longrightarrow>
      (\<exists>evs. registerWebAuthnCredential w email username s =
         (Inr (failure (if instanceof_Error e then message_of w e else msg_registration_error)),
          evs, s))) \<and>
    (isWebAuthnSupported w \<and> fst (beginRegistration w email username s) = Inr b \<and>
     credentials_create w (JObj [(''publicKey'', publicKey b)]) =
       CredentialResolves (Some attestation) \<and>
     fst (finishRegistration w (sessionId b) attestation s) = Inr result \<longrightarrow>
      (\<exists>t u. get_prop result ''token'' = Inr t \<and> get_prop result ''user'' = Inr u \<and>
         fst (registerWebAuthnCredential w email username s) = Inr (succeeded t u)))) \<and>
   ((\<not> isWebAuthnSupported w \<longrightarrow>
      authenticateWebAuthn w email s = (Inr (failure msg_webauthn_unsupported), [], s)) \<and>
    (isWebAuthnSupported w \<and> fst (beginLogin w email s) = Inl e \<longrightarrow>
      (\<exists>evs. authenticateWebAuthn w email s =
         (Inr (failure (if instanceof_Error e then message_of w e else msg_authentication_error)),
          evs, s))) \<and>
    (isWebAuthnSupported w \<and> fst (beginLogin w email s) = Inr c \<and>
     credentials_get w (JObj [(''publicKey'', publicKey c)]) = CredentialRejects e \<longrightarrow>
      (\<exists>evs. authenticateWebAuthn w email s =
         (Inr (failure (if instanceof_Error e then message_of w e else msg_authentication_error)),
          evs, s))) \<and>
    (isWebAuthnSupported w \<and> fst (beginLogin w email s) = Inr c \<and>
     credentials_get w (JObj [(''publicKey'', publicKey c)]) = CredentialResolves None \<longrightarrow>
      (\<exists>evs. authenticateWebAuthn w email s =
         (Inr (failure msg_authentication_failed), evs, s))) \<and>
    (isWebAuthnSupported w \<and> fst (beginLogin w email s) = Inr c \<and>
     credentials_get w (JObj [(''publicKey'', publicKey c)]) =
       CredentialResolves (Some assertion) \<and>
     fst (finishLogin w (sessionId c) assertion s) = Inl e \<longrightarrow>
      (\<exists>evs. authenticateWebAuthn w email s =
         (Inr (failure (if instanceof_Error e then message_of w e else msg_authentication_error)),
          evs, s))) \<and>
    (isWebAuthnSupported w \<and> fst (beginLogin w email s) = Inr c \<and>
     credentials_get w (JObj [(''publicKey'', publicKey c)]) =
       CredentialResolves (Some assertion) \<and>
     fst (finishLogin w (sessionId c) assertion s) = Inr result \<longrightarrow>
      (\<exists>t u. get_prop result ''token'' = Inr t \<and> get_prop result ''user'' = Inr u \<and>
         fst (authenticateWebAuthn w email s) = Inr (succeeded t u)))) \<and>
   fst (registerWebAuthnCredential (w\<lparr>localStorage_setItem := wr\<rparr>) email username s) =
     fst (registerWebAuthnCredential w email username s) \<and>
   fst (authenticateWebAuthn (w\<lparr>localStorage_setItem := wr\<rparr>) email s) =
     fst (authenticateWebAuthn w email s) \<and>
   (localStorage_setItem w ''webauthn_last_email'' email = Some e \<and>
    fst (registerWebAuthnCredential w email username s) = Inr (succeeded t u) \<longrightarrow>
      (\<exists>evs. snd (registerWebAuthnCredential w email username s) =
         (evs @ [SetItem ''webauthn_last_email'' email,
                 ConsoleError ''Failed to save last email:'' e], s))) \<and>
   (localStorage_setItem w ''webauthn_last_email'' email = Some e \<and>
    fst (authenticateWebAuthn w email s) = Inr (succeeded t u) \<longrightarrow>
      (\<exists>evs. snd (authenticateWebAuthn w email s) =
         (evs @ [SetItem ''webauthn_last_email'' email,
                 ConsoleError ''Failed to save last email:'' e], s)))"
proof -
  note r1 = register_returns [where w = w and email = email and username = username and s = s]
  note a1 = authenticate_returns [where w = w and email = email and s = s]
  note r2 = register_step_outcomes
    [where w = w and email = email and username = username and s = s and e = e and b = b
       and cred = attestation and result = result]
  note a2 = authenticate_step_outcomes
    [where w = w and email = email and s = s and e = e and b = c and cred = assertion
       and result = result]
  note r3 = register_storage_independent
    [where w = w and wr = wr and email = email and username = username and s = s]
  note a3 = authenticate_storage_independent
    [where w = w and wr = wr and email = email and s = s]
  note r4 = register_storage_failure_logged
    [where w = w and email = email and e = e and username = username and s = s
       and t = t and u = u]
  note a4 = authenticate_storage_failure_logged
    [where w = w and email = email and e = e and s = s and t = t and u = u]
  from r4 have r5: "localStorage_setItem w ''webauthn_last_email'' email = Some e \<and>
      fst (registerWebAuthnCredential w email username s) = Inr (succeeded t u) \<longrightarrow>
      (\<exists>evs. snd (registerWebAuthnCredential w email username s) =
         (evs @ [SetItem ''webauthn_last_email'' email,
                 ConsoleError ''Failed to save last email:'' e], s))"
    by (intro impI) (elim conjE)
  from a4 have a5: "localStorage_setItem w ''webauthn_last_email'' email = Some e \<and>
      fst (authenticateWebAuthn w email s) = Inr (succeeded t u) \<longrightarrow>
      (\<exists>evs. snd (authenticateWebAuthn w email s) =
         (evs @ [SetItem ''webauthn_last_email'' email,
                 ConsoleError ''Failed to save last email:'' e], s))"
    by (intro impI) (elim conjE)
  show ?thesis
    by (rule conjI [OF r1 conjI [OF a1 conjI [OF r2 conjI [OF a2 conjI [OF r3 conjI [OF a3
          conjI [OF r5 a5]]]]]]])
qed

text \<open>
  Three hosts. At the example host whose \<^verbatim>\<open>setItem\<close> throws, the registration
  succeeds all the same, the thrown value is reported, and the empty storage stays empty.
  At a host whose requests reject with an \<^verbatim>\<open>Error\<close> of message
  \<^verbatim>\<open>unreachable\<close>, the login fails with that message. At a host whose registration
  begins and whose finish request rejects with a value that is no \<^verbatim>\<open>Error\<close>, the
  registration fails with the fallback text.
\<close>

theorem ceremonies_never_raise_witness:
  "(localStorage_setItem (example_registration_world (Some (HostError True ''QuotaExceededError'')))
      ''webauthn_last_email'' ''a@b.c'' = Some (HostError True ''QuotaExceededError'') \<and>
    fst (registerWebAuthnCredential
           (example_registration_world (Some (HostError True ''QuotaExceededError'')))
           ''a@b.c'' ''alice'' Map.empty) = Inr (succeeded (JStr ''jwt'') JUndefined) \<and>
    (\<exists>evs. snd (registerWebAuthnCredential
           (example_registration_world (Some (HostError True ''QuotaExceededError'')))
           ''a@b.c'' ''alice'' Map.empty) =
       (evs @ [SetItem ''webauthn_last_email'' ''a@b.c'',
               ConsoleError ''Failed to save last email:''
                 (HostError True ''QuotaExceededError'')], Map.empty))) \<and>
   (isWebAuthnSupported
      (example_world (FetchRejects (HostError True ''unreachable''))
         (FetchRejects (HostError True ''unreachable'')) None) \<and>
    fst (beginLogin
           (example_world (FetchRejects (HostError True ''unreachable''))
              (FetchRejects (HostError True ''unreachable'')) None)
           ''a@b.c'' Map.empty) = Inl (HostError True ''unreachable'') \<and>
    (\<exists>evs. authenticateWebAuthn
           (example_world (FetchRejects (HostError True ''unreachable''))
              (FetchRejects (HostError True ''unreachable'')) None)
           ''a@b.c'' Map.empty = (Inr (failure ''unreachable''), evs, Map.empty))) \<and>
   (isWebAuthnSupported
      (example_world
         (FetchResolves True (JsonResolves (example_begin_envelope example_creation_options)))
         (FetchRejects (HostError False ''offline'')) None) \<and>
    fst (beginRegistration
           (example_world
              (FetchResolves True
                 (JsonResolves (example_begin_envelope example_creation_options)))
              (FetchRejects (HostError False ''offline'')) None)
           ''a@b.c'' ''alice'' Map.empty) =
      Inr \<lparr>publicKey = example_creation_options_decoded, sessionId = JStr ''s-1''\<rparr> \<and>
    fst (finishRegistration
           (example_world
              (FetchResolves True
                 (JsonResolves (example_begin_envelope example_creation_options)))
              (FetchRejects (HostError False ''offline'')) None)
           (JStr ''s-1'') example_attestation Map.empty) = Inl (HostError False ''offline'') \<and>
    (\<exists>evs. registerWebAuthnCredential
           (example_world
              (FetchResolves True
                 (JsonResolves (example_begin_envelope example_creation_options)))
              (FetchRejects (HostError False ''offline'')) None)
           ''a@b.c'' ''alice'' Map.empty =
       (Inr (failure msg_registration_error), evs, Map.empty)))"
proof -
  let ?w = "example_registration_world (Some (HostError True ''QuotaExceededError''))"
  let ?b = "\<lparr>publicKey = example_creation_options_decoded, sessionId = JStr ''s-1''\<rparr>"
  let ?result = "JObj [(''token'', JStr ''jwt'')]"
  have sup: "isWebAuthnSupported ?w" by (rule example_worlds)
  have b: "fst (beginRegistration ?w ''a@b.c'' ''alice'' Map.empty) = Inr ?b"
    by (rule example_registration_steps)
  have c: "credentials_create ?w (JObj [(''publicKey'', publicKey ?b)]) =
      CredentialResolves (Some example_attestation)"
    by (rule example_worlds)
  have f: "fst (finishRegistration ?w (sessionId ?b) example_attestation Map.empty) = Inr ?result"
    by (rule example_registration_steps)
  have props: "get_prop ?result ''token'' = Inr (JStr ''jwt'')"
    "get_prop ?result ''user'' = Inr JUndefined"
    by (simp_all add: prop_of_def)
  have w: "localStorage_setItem ?w ''webauthn_last_email'' ''a@b.c'' =
      Some (HostError True ''QuotaExceededError'')"
    by (rule example_worlds)
  from register_success [OF sup b c f] props
  have r: "fst (registerWebAuthnCredential ?w ''a@b.c'' ''alice'' Map.empty) =
      Inr (succeeded (JStr ''jwt'') JUndefined)"
    by auto
  from ceremonies_never_raise
    [where w = ?w and email = "''a@b.c''" and username = "''alice''" and s = Map.empty
       and e = "HostError True ''QuotaExceededError''" and t = "JStr ''jwt''"
       and u = JUndefined, THEN conjunct2, THEN conjunct2, THEN conjunct2, THEN conjunct2,
     THEN conjunct2, THEN conjunct2, THEN conjunct1] w r
  have first: "localStorage_setItem ?w ''webauthn_last_email'' ''a@b.c'' =
      Some (HostError True ''QuotaExceededError'') \<and>
    fst (registerWebAuthnCredential ?w ''a@b.c'' ''alice'' Map.empty) =
      Inr (succeeded (JStr ''jwt'') JUndefined) \<and>
    (\<exists>evs. snd (registerWebAuthnCredential ?w ''a@b.c'' ''alice'' Map.empty) =
       (evs @ [SetItem ''webauthn_last_email'' ''a@b.c'',
               ConsoleError ''Failed to save last email:''
                 (HostError True ''QuotaExceededError'')], Map.empty))"
    by simp
  let ?v = "example_world (FetchRejects (HostError True ''unreachable''))
              (FetchRejects (HostError True ''unreachable'')) None"
  have supv: "isWebAuthnSupported ?v" by (rule example_world_supported)
  have bv: "fst (beginLogin ?v ''a@b.c'' Map.empty) = Inl (HostError True ''unreachable'')"
    by (rule beginLogin_fetch_rejects [OF example_world_fetch(2)])
  from ceremonies_never_raise
    [where w = ?v and email = "''a@b.c''" and s = Map.empty
       and e = "HostError True ''unreachable''", THEN conjunct2, THEN conjunct2,
     THEN conjunct2, THEN conjunct1, THEN conjunct2, THEN conjunct1] supv bv
  have second: "isWebAuthnSupported ?v \<and>
    fst (beginLogin ?v ''a@b.c'' Map.empty) = Inl (HostError True ''unreachable'') \<and>
    (\<exists>evs. authenticateWebAuthn ?v ''a@b.c'' Map.empty =
       (Inr (failure ''unreachable''), evs, Map.empty))"
    by simp
  let ?x = "example_world
              (FetchResolves True (JsonResolves (example_begin_envelope example_creation_options)))
              (FetchRejects (HostError False ''offline'')) None"
  have supx: "isWebAuthnSupported ?x" by (rule example_world_supported)
  have bx: "fst (beginRegistration ?x ''a@b.c'' ''alice'' Map.empty) = Inr ?b"
    unfolding example_begin_envelope_def
    by (rule beginRegistration_success
          [OF example_world_fetch(1), where data_publicKey = example_creation_options])
      (simp_all add: example_envelopes example_options_decoded prop_of_def)
  have cx: "credentials_create ?x (JObj [(''publicKey'', publicKey ?b)]) =
      CredentialResolves (Some example_attestation)"
    by (rule example_world_platform)
  have fx: "fst (finishRegistration ?x (sessionId ?b) example_attestation Map.empty) =
      Inl (HostError False ''offline'')"
    by (rule finishRegistration_fetch_rejects [OF example_world_fetch(3)])
  from ceremonies_never_raise
    [where w = ?x and email = "''a@b.c''" and username = "''alice''" and s = Map.empty
       and e = "HostError False ''offline''" and b = ?b and attestation = example_attestation,
     THEN conjunct2, THEN conjunct2, THEN conjunct1, THEN conjunct2, THEN conjunct2,
     THEN conjunct2, THEN conjunct2, THEN conjunct1] supx bx cx fx
  have third: "isWebAuthnSupported ?x \<and>
    fst (beginRegistration ?x ''a@b.c'' ''alice'' Map.empty) = Inr ?b \<and>
    fst (finishRegistration ?x (JStr ''s-1'') example_attestation Map.empty) =
      Inl (HostError False ''offline'') \<and>
    (\<exists>evs. registerWebAuthnCredential ?x ''a@b.c'' ''alice'' Map.empty =
       (Inr (failure msg_registration_error), evs, Map.empty))"
    by simp
  from first second third show ?thesis by (intro conjI) (elim conjE, assumption)+
qed

section \<open>The body of the finish-login request\<close>

lemma json_quote_keys:
  "json_quote ''sessionId'' = ''\"sessionId\"''"
  "json_quote ''credential'' = ''\"credential\"''"
  "json_quote ''id'' = ''\"id\"''"
  "json_quote ''rawId'' = ''\"rawId\"''"
  "json_quote ''type'' = ''\"type\"''"
  "json_quote ''response'' = ''\"response\"''"
  "json_quote ''authenticatorData'' = ''\"authenticatorData\"''"
  "json_quote ''clientDataJSON'' = ''\"clientDataJSON\"''"
  "json_quote ''signature'' = ''\"signature\"''"
  "json_quote ''userHandle'' = ''\"userHandle\"''"
  by code_simp+

text \<open>Base64 text needs no escape: it is written between quotes as it is.\<close>

lemma json_quote_char_base64url: "\<forall>c\<in>set base64url_table. json_quote_char c = [c]"
  by code_simp

lemma concat_singletons: "\<forall>c\<in>set t. f c = [c] \<Longrightarrow> concat (map f t) = t"
  by (induction t) simp_all

lemma json_quote_bufferToBase64URL:
  "json_quote (bufferToBase64URL b) = ''\"'' @ bufferToBase64URL b @ ''\"''"
proof -
  have "\<forall>c\<in>set (bufferToBase64URL b). c \<in> set base64url_table"
    using wellformed_bufferToBase64URL [of b]
    by (simp add: wellformed_base64url_def list_all_iff)
  then have "\<forall>c\<in>set (bufferToBase64URL b). json_quote_char c = [c]"
    using json_quote_char_base64url by blast
  then have "concat (map json_quote_char (bufferToBase64URL b)) = bufferToBase64URL b"
    by (rule concat_singletons)
  then show ?thesis by (simp add: json_quote_def)
qed


lemma finishLogin_body:
  "stringify_object (finishLogin_requestData session_id credential) =
     ''{'' @
     (case json_stringify session_id of None \<Rightarrow> [] | Some t \<Rightarrow> ''\"sessionId\":'' @ t @ '','') @
     ''\"credential\":{\"id\":'' @ json_quote (credential_id credential) @
     '',\"rawId\":\"'' @ bufferToBase64URL (rawId credential) @
     ''\",\"type\":'' @ json_quote (credential_type credential) @
     '',\"response\":{\"authenticatorData\":\"'' @
        bufferToBase64URL (authenticatorData (response credential)) @
     ''\",\"clientDataJSON\":\"'' @
        bufferToBase64URL (assertion_clientDataJSON (response credential)) @
     ''\",\"signature\":\"'' @ bufferToBase64URL (signature (response credential)) @ ''\"'' @
     (case userHandle (response credential) of
        None \<Rightarrow> []
      | Some buffer \<Rightarrow> '',\"userHandle\":\"'' @ bufferToBase64URL buffer @ ''\"'') @
     ''}}}''"
  by (simp add: stringify_object_def finishLogin_requestData_def json_quote_keys
      json_quote_bufferToBase64URL split: option.split)

text \<open>
  C8. For an assertion whose \<^verbatim>\<open>userHandle\<close> is \<^verbatim>\<open>null\<close>, the one request of
  \<open>finishLogin\<close> has the body written out below: its \<^verbatim>\<open>response\<close> object has the
  members \<^verbatim>\<open>authenticatorData\<close>, \<^verbatim>\<open>clientDataJSON\<close> and \<^verbatim>\<open>signature\<close>, and no
  member \<^verbatim>\<open>userHandle\<close>.
\<close>

theorem absent_userHandle_is_omitted:
  "userHandle (response credential) = None \<longrightarrow>
     (\<exists>r. finishLogin w session_id credential s =
        (r, [SetTimeout REQUEST_TIMEOUT,
             Fetch (API_BASE_URL w @ ''/api/v1/auth/login/finish'')
               (''{'' @
                (case json_stringify session_id of
                   None \<Rightarrow> []
                 | Some t \<Rightarrow> ''\"sessionId\":'' @ t @ '','') @
                ''\"credential\":{\"id\":'' @ json_quote (credential_id credential) @
                '',\"rawId\":\"'' @ bufferToBase64URL (rawId credential) @
                ''\",\"type\":'' @ json_quote (credential_type credential) @
                '',\"response\":{\"authenticatorData\":\"'' @
                   bufferToBase64URL (authenticatorData (response credential)) @
                ''\",\"clientDataJSON\":\"'' @
                   bufferToBase64URL (assertion_clientDataJSON (response credential)) @
                ''\",\"signature\":\"'' @
                   bufferToBase64URL (signature (response credential)) @
                ''\"}}}''),
             ClearTimeout], s))"
proof
  assume "userHandle (response credential) = None"
  with finishLogin_run [of w session_id credential s] finishLogin_body [of session_id credential]
  show "\<exists>r. finishLogin w session_id credential s =
        (r, [SetTimeout REQUEST_TIMEOUT,
             Fetch (API_BASE_URL w @ ''/api/v1/auth/login/finish'')
               (''{'' @
                (case json_stringify session_id of
                   None \<Rightarrow> []
                 | Some t \<Rightarrow> ''\"sessionId\":'' @ t @ '','') @
                ''\"credential\":{\"id\":'' @ json_quote (credential_id credential) @
                '',\"rawId\":\"'' @ bufferToBase64URL (rawId credential) @
                ''\",\"type\":'' @ json_quote (credential_type credential) @
                '',\"response\":{\"authenticatorData\":\"'' @
                   bufferToBase64URL (authenticatorData (response credential)) @
                ''\",\"clientDataJSON\":\"'' @
                   bufferToBase64URL (assertion_clientDataJSON (response credential)) @
                ''\",\"signature\":\"'' @
                   bufferToBase64URL (signature (response credential)) @
                ''\"}}}''),
             ClearTimeout], s)"
    by simp
qed

lemma example_assertion_texts:
  "json_quote ''s-1'' = ''\"s-1\"''"
  "json_quote ''AQI'' = ''\"AQI\"''"
  "json_quote ''public-key'' = ''\"public-key\"''"
  "bufferToBase64URL [1, 2] = ''AQI''"
  "bufferToBase64URL [3] = ''Aw''"
  "bufferToBase64URL [4, 5, 6] = ''BAUG''"
  "bufferToBase64URL [7] = ''Bw''"
  by code_simp+

text \<open>The body for the example assertion without a user handle.\<close>

theorem absent_userHandle_is_omitted_witness:
  "userHandle (response (example_assertion None)) = None \<and>
   (\<exists>r. finishLogin (example_login_world None) (JStr ''s-1'') (example_assertion None) Map.empty =
      (r, [SetTimeout 60000,
           Fetch ''http://localhost:8080/api/v1/auth/login/finish''
             (''{\"sessionId\":\"s-1\",\"credential\":{\"id\":\"AQI\",\"rawId\":\"AQI\",'' @
              ''\"type\":\"public-key\",\"response\":{\"authenticatorData\":\"Aw\",'' @
              ''\"clientDataJSON\":\"BAUG\",\"signature\":\"Bw\"}}}''),
           ClearTimeout], Map.empty))"
proof -
  have h: "userHandle (response (example_assertion None)) = None"
    by (simp add: example_assertion_def)
  have url: "API_BASE_URL (example_login_world None) = ''http://localhost:8080''"
    by (simp add: API_BASE_URL_def example_login_world_def example_world_def)
  from absent_userHandle_is_omitted
    [of "example_assertion None" "example_login_world None" "JStr ''s-1''" Map.empty] h
  show ?thesis
    by (simp add: url REQUEST_TIMEOUT_def example_assertion_def example_assertion_texts)
qed

section \<open>An empty user handle, and a success without data\<close>



end
